theory Spec2Isabelle
  imports Main
begin

section \<open>Strings\<close>

text \<open>
  A JavaScript string is modelled as a \<^typ>\<open>string\<close>: the list of the bytes of its UTF-8
  encoding. The string methods that \<^verbatim>\<open>exportFile\<close> calls are written out below. Substring
  tests on well-formed text give the same answer on UTF-8 bytes as on UTF-16 code units.
  White space (for \<^verbatim>\<open>trim\<close> and the regular expression class \<^verbatim>\<open>\s\<close>) is the ASCII
  white space; the Unicode space characters beyond ASCII are ordinary bytes here.
\<close>

fun startsWith :: "string \<Rightarrow> string \<Rightarrow> bool" where
  "startsWith s [] = True"
| "startsWith [] (p # ps) = False"
| "startsWith (c # cs) (p # ps) = (c = p \<and> startsWith cs ps)"

definition endsWith :: "string \<Rightarrow> string \<Rightarrow> bool" where
  "endsWith s suf = startsWith (rev s) (rev suf)"

fun includesStr :: "string \<Rightarrow> string \<Rightarrow> bool" where
  "includesStr [] sub = (sub = [])"
| "includesStr (c # cs) sub = (startsWith (c # cs) sub \<or> includesStr cs sub)"

definition isSpace :: "char \<Rightarrow> bool" where
  "isSpace c = (c \<in> set [CHR 0x20, CHR 0x09, CHR 0x0A, CHR 0x0B, CHR 0x0C, CHR 0x0D])"

definition trim :: "string \<Rightarrow> string" where
  "trim s = rev (dropWhile isSpace (rev (dropWhile isSpace s)))"

text \<open>\<^verbatim>\<open>s.split(sep)\<close> for a separator of one character: never the empty array.\<close>

fun splitOn :: "char \<Rightarrow> string \<Rightarrow> string list" where
  "splitOn sep [] = [[]]"
| "splitOn sep (c # cs) =
     (if c = sep then [] # splitOn sep cs
      else (case splitOn sep cs of
              [] \<Rightarrow> [[c]]
            | w # ws \<Rightarrow> (c # w) # ws))"

text \<open>
  \<^verbatim>\<open>[...new Set(xs)]\<close>: a \<^verbatim>\<open>Set\<close> keeps the first occurrence of each element, in
  insertion order.
\<close>

fun setOrder :: "'a list \<Rightarrow> 'a list \<Rightarrow> 'a list" where
  "setOrder seen [] = []"
| "setOrder seen (x # xs) =
     (if x \<in> set seen then setOrder seen xs else x # setOrder (x # seen) xs)"

definition newSet :: "'a list \<Rightarrow> 'a list" where
  "newSet xs = setOrder [] xs"

text \<open>\<^verbatim>\<open>if (!xs.includes(x)) xs.push(x)\<close>, for each element of a list in turn.\<close>

definition pushIfAbsent :: "'a list \<Rightarrow> 'a \<Rightarrow> 'a list" where
  "pushIfAbsent xs x = (if x \<in> set xs then xs else xs @ [x])"

subsection \<open>The regular expressions of the shell-profile scan\<close>

text \<open>
  \<^verbatim>\<open>/export\s+PATH=/\<close> at the head of a string: the length of the match, if any.
  The white space run is greedy; the letter after it is not white space, so there is
  nothing to backtrack into.
\<close>

definition exportPrefixLen :: "string \<Rightarrow> nat option" where
  "exportPrefixLen s =
     (if startsWith s ''export'' then
        (let r = drop 6 s; ws = takeWhile isSpace r in
         if ws \<noteq> [] \<and> startsWith (dropWhile isSpace r) ''PATH=''
         then Some (6 + length ws + 5) else None)
      else None)"

text \<open>\<^verbatim>\<open>/export\s+PATH=([^:]+)/\<close> at the head of a string: the matched text.\<close>

definition exportPathAt :: "string \<Rightarrow> string option" where
  "exportPathAt s =
     (case exportPrefixLen s of
        None \<Rightarrow> None
      | Some n \<Rightarrow>
          (let v = takeWhile (\<lambda>c. c \<noteq> CHR '':'') (drop n s) in
           if v = [] then None else Some (take n s @ v)))"

text \<open>
  \<^verbatim>\<open>s.match(/export\s+PATH=([^:]+)/g) || []\<close>: all matches from left to right, each
  search resuming where the last match ended. The first argument counts the characters
  of the current match still to be passed over.
\<close>

fun matchExports :: "nat \<Rightarrow> string \<Rightarrow> string list" where
  "matchExports k [] = []"
| "matchExports k (c # cs) =
     (if 0 < k then matchExports (k - 1) cs
      else (case exportPathAt (c # cs) of
              None \<Rightarrow> matchExports 0 cs
            | Some m \<Rightarrow> m # matchExports (length m - 1) cs))"

text \<open>\<^verbatim>\<open>m.replace(/export\s+PATH=/, '')\<close>: the leftmost match is cut out.\<close>

fun dropExportPrefix :: "string \<Rightarrow> string" where
  "dropExportPrefix [] = []"
| "dropExportPrefix (c # cs) =
     (case exportPrefixLen (c # cs) of
        Some n \<Rightarrow> drop n (c # cs)
      | None \<Rightarrow> c # dropExportPrefix cs)"

text \<open>\<^verbatim>\<open>v.replace(/["']/g, '')\<close>.\<close>

definition dropQuotes :: "string \<Rightarrow> string" where
  "dropQuotes v = filter (\<lambda>c. c \<noteq> CHR 0x22 \<and> c \<noteq> CHR 0x27) v"

text \<open>The values that the loop over the matches pushes onto \<^verbatim>\<open>commonPaths\<close>.\<close>

definition zshrcPaths :: "string \<Rightarrow> string list" where
  "zshrcPaths zshrc =
     filter (\<lambda>pathValue. pathValue \<noteq> [] \<and>
               (includesStr pathValue ''homebrew'' \<or> includesStr pathValue ''opt'' \<or>
                includesStr pathValue ''bin''))
       (map (\<lambda>m. dropQuotes (dropExportPrefix m)) (matchExports 0 zshrc))"

section \<open>The host\<close>

text \<open>
  Everything \<^verbatim>\<open>exportFile\<close> and \<^verbatim>\<open>getExportDirectory\<close> ask of Node and of Obsidian is
  a field of the host: \<^verbatim>\<open>os.platform()\<close>, \<^verbatim>\<open>process.cwd()\<close>, \<^verbatim>\<open>os.homedir()\<close>,
  \<^verbatim>\<open>os.tmpdir()\<close>, \<^verbatim>\<open>process.env\<close>, the functions of \<^verbatim>\<open>path\<close>, the answers of the file
  system, of \<^verbatim>\<open>child_process.exec\<close> and of the vault. A call that can throw or reject
  answers with the message of its error.
\<close>

datatype platform = Win32 | Darwin | Linux | OtherPlatform

record host =
  platform :: platform
  cwd :: string
  homedir :: string
  tmpdir :: string
  env :: "(string \<times> string) list"
  path_isAbsolute :: "string \<Rightarrow> bool"
  path_join :: "string \<Rightarrow> string \<Rightarrow> string"
  path_basename :: "string \<Rightarrow> string"
  access_X_OK :: "string \<Rightarrow> bool"
  existsSync :: "string \<Rightarrow> bool"
  readFileSync :: "string \<Rightarrow> string option"
  exec :: "string \<Rightarrow> string option \<Rightarrow> string + string \<times> string"
  vault_basePath :: "string option"
  vault_read :: "string \<Rightarrow> string + string"
  writeFile_error :: "string \<Rightarrow> string option"
  unlink_error :: "string \<Rightarrow> string option"
  mkdir_error :: "string \<Rightarrow> string option"

text \<open>
  \<^term>\<open>exec h command shell\<close> is \<^verbatim>\<open>execPromise(command, {shell: ...})\<close>: \<^term>\<open>Inl message\<close>
  when the promise rejects (the process could not be spawned or exited with a status
  other than zero), \<^term>\<open>Inr (stdout, stderr)\<close> when it exited with status zero.
  \<^term>\<open>access_X_OK h p\<close> says that \<^verbatim>\<open>fs.promises.access(p, fs.constants.X_OK)\<close> resolves.
\<close>

record settings =
  pandocPath :: string
  defaultExportDirectory :: string
  defaultFormat :: string
  customArguments :: string
  pdfEngine :: string

definition DEFAULT_SETTINGS :: settings where
  "DEFAULT_SETTINGS =
     \<lparr>pandocPath = ''pandoc'', defaultExportDirectory = [], defaultFormat = ''pdf'',
      customArguments = [], pdfEngine = ''auto''\<rparr>"

text \<open>What the plugin does to the outside, in the order it does it.\<close>

datatype event =
    Access string bool
  | Exec string "string option" "(string \<times> string) list option"
  | WriteFile string bool
  | Unlink string bool
  | Mkdir string bool
  | ConsoleWarning string
  | ConsoleError string
  | Notice string

text \<open>
  \<^term>\<open>Access p ok\<close>: the executability check of \<open>p\<close> and its answer. \<^term>\<open>Exec c sh e\<close>: the
  command \<open>c\<close> run with the options \<^verbatim>\<open>shell\<close> and \<^verbatim>\<open>env\<close> (\<^term>\<open>None\<close>: option not
  set). The \<^verbatim>\<open>console.log\<close> lines that only narrate the search are left out.
\<close>

section \<open>Finding pandoc\<close>

text \<open>
  The check of a path the user configured (lines 156 to 162 and 168 to 174): the path
  itself, then, on Windows and for a path that does not end in \<^verbatim>\<open>.exe\<close>, the path with
  \<^verbatim>\<open>.exe\<close> appended.
\<close>

definition accessOrExe :: "host \<Rightarrow> string \<Rightarrow> bool \<times> event list" where
  "accessOrExe h p =
     (if access_X_OK h p then (True, [Access p True])
      else if platform h = Win32 \<and> \<not> endsWith p ''.exe''
      then (access_X_OK h (p @ ''.exe''),
            [Access p False, Access (p @ ''.exe'') (access_X_OK h (p @ ''.exe''))])
      else (False, [Access p False]))"

text \<open>
  Step 1 of \<^verbatim>\<open>exportFile\<close> (lines 148 to 182): the values of \<^verbatim>\<open>pandocPath\<close> and
  \<^verbatim>\<open>pandocFound\<close> after it.
\<close>

definition userPath :: "host \<Rightarrow> string \<Rightarrow> (string \<times> bool) \<times> event list" where
  "userPath h hint =
     (if hint \<noteq> [] \<and> hint \<noteq> ''pandoc'' then
        (if path_isAbsolute h hint then
           (case accessOrExe h hint of (ok, evs) \<Rightarrow> ((hint, ok), evs))
         else
           (let possiblePath = path_join h (cwd h) hint in
            case accessOrExe h possiblePath of
              (ok, evs) \<Rightarrow> ((if ok then possiblePath else hint, ok), evs)))
      else ((hint, False), []))"

definition commonPaths :: "string list" where
  "commonPaths =
     [''C:'' @ [CHR 0x5C] @ ''Program Files'' @ [CHR 0x5C] @ ''Pandoc'',
      ''C:'' @ [CHR 0x5C] @ ''Pandoc'',
      ''/usr/local/bin'',
      ''/opt/homebrew/bin'',
      ''/opt/local/bin'',
      ''/opt/homebrew/bin'',
      ''/usr/local/Homebrew/bin'',
      ''/usr/bin'',
      ''/usr/local/bin'',
      ''/opt/bin'']"

definition brewM1Paths :: "string list" where
  "brewM1Paths = [''/opt/homebrew/bin'', ''/opt/homebrew/sbin'', ''/opt/homebrew/opt/pandoc/bin'']"

text \<open>Lines 238 to 251: the directories of the \<^verbatim>\<open>PATH\<close> that \<^verbatim>\<open>/bin/zsh\<close> prints.\<close>

definition shellPathDirs :: "host \<Rightarrow> string list \<Rightarrow> string list" where
  "shellPathDirs h cp =
     (case exec h ''echo $PATH'' (Some ''/bin/zsh'') of
        Inl e \<Rightarrow> cp
      | Inr (stdout, stderr) \<Rightarrow>
          (if trim stdout \<noteq> []
           then foldl pushIfAbsent cp (filter (\<lambda>d. d \<noteq> []) (splitOn CHR '':'' (trim stdout)))
           else cp))"

text \<open>
  Lines 213 to 267, the block for macOS. An exception of \<^verbatim>\<open>readFileSync\<close> leaves the
  block through its outer \<^verbatim>\<open>catch\<close>, before the shell is asked and before the Homebrew
  directories are added.
\<close>

definition darwinPaths :: "host \<Rightarrow> string list \<Rightarrow> string list \<times> event list" where
  "darwinPaths h cp =
     (let zshrcPath = path_join h (homedir h) ''.zshrc'' in
      if existsSync h zshrcPath then
        (case readFileSync h zshrcPath of
           None \<Rightarrow> (cp, [])
         | Some zshrc \<Rightarrow>
             (foldl pushIfAbsent (shellPathDirs h (cp @ zshrcPaths zshrc)) brewM1Paths,
              [Exec ''echo $PATH'' (Some ''/bin/zsh'') None]))
      else (foldl pushIfAbsent (shellPathDirs h cp) brewM1Paths,
            [Exec ''echo $PATH'' (Some ''/bin/zsh'') None]))"

text \<open>
  Lines 189 to 270: \<^verbatim>\<open>allPaths\<close>, the directories to look into, in order.
  \<^verbatim>\<open>process.env.PATH\<close> is the entry of the environment under the name \<^verbatim>\<open>PATH\<close>; a host
  for Windows, where Node finds the variable whatever the case of its name, lists it
  under that name.
\<close>

definition pathDirs :: "host \<Rightarrow> string list" where
  "pathDirs h =
     splitOn (if platform h = Win32 then CHR '';'' else CHR '':'')
       (case map_of (env h) ''PATH'' of None \<Rightarrow> [] | Some pathVars \<Rightarrow> pathVars)"

definition allPaths :: "host \<Rightarrow> string list \<times> event list" where
  "allPaths h =
     (if platform h = Darwin
      then (case darwinPaths h commonPaths of (cp, evs) \<Rightarrow> (newSet (pathDirs h @ cp), evs))
      else (newSet (pathDirs h @ commonPaths), []))"

definition exeName :: "host \<Rightarrow> string" where
  "exeName h = (if platform h = Win32 then ''pandoc.exe'' else ''pandoc'')"

text \<open>Lines 273 to 288: the loop over \<^verbatim>\<open>allPaths\<close>; an empty entry is skipped.\<close>

fun findInDirs :: "host \<Rightarrow> string list \<Rightarrow> string option \<times> event list" where
  "findInDirs h [] = (None, [])"
| "findInDirs h (dir # dirs) =
     (if dir = [] then findInDirs h dirs
      else if access_X_OK h (path_join h dir (exeName h))
      then (Some (path_join h dir (exeName h)), [Access (path_join h dir (exeName h)) True])
      else (case findInDirs h dirs of
              (found, evs) \<Rightarrow> (found, Access (path_join h dir (exeName h)) False # evs)))"

text \<open>Lines 298 to 308: the loop over the lines that \<^verbatim>\<open>mdfind\<close> printed.\<close>

fun firstExecutable :: "host \<Rightarrow> string list \<Rightarrow> string option \<times> event list" where
  "firstExecutable h [] = (None, [])"
| "firstExecutable h (possPath # rest) =
     (if access_X_OK h possPath then (Some possPath, [Access possPath True])
      else (case firstExecutable h rest of
              (found, evs) \<Rightarrow> (found, Access possPath False # evs)))"

definition mdfindCommand :: string where
  "mdfindCommand =
     ''mdfind -name pandoc | grep -v '' @ [CHR 0x22, CHR 0x5C] @ ''.html$'' @ [CHR 0x22] @
     '' | grep -v '' @ [CHR 0x22, CHR 0x5C] @ ''.txt$'' @ [CHR 0x22]"

text \<open>Lines 291 to 313, on macOS only.\<close>

definition mdfindPandoc :: "host \<Rightarrow> string option \<times> event list" where
  "mdfindPandoc h =
     (case exec h mdfindCommand (Some ''/bin/zsh'') of
        Inl e \<Rightarrow> (None, [Exec mdfindCommand (Some ''/bin/zsh'') None])
      | Inr (stdout, stderr) \<Rightarrow>
          (if trim stdout \<noteq> []
           then (case firstExecutable h (splitOn CHR 0x0A (trim stdout)) of
                   (found, evs) \<Rightarrow> (found, Exec mdfindCommand (Some ''/bin/zsh'') None # evs))
           else (None, [Exec mdfindCommand (Some ''/bin/zsh'') None])))"

text \<open>Lines 316 to 338: \<^verbatim>\<open>which pandoc\<close>, or \<^verbatim>\<open>where pandoc\<close> on Windows.\<close>

definition whichCommand :: "host \<Rightarrow> string" where
  "whichCommand h = (if platform h = Win32 then ''where pandoc'' else ''which pandoc'')"

definition whichShell :: "host \<Rightarrow> string option" where
  "whichShell h =
     (if platform h = Darwin then Some ''/bin/zsh''
      else if platform h = Linux then Some ''/bin/bash''
      else None)"

definition firstLine :: "string \<Rightarrow> string" where
  "firstLine stdout = trim (case splitOn CHR 0x0A (trim stdout) of [] \<Rightarrow> [] | l # ls \<Rightarrow> l)"

definition whichPandoc :: "host \<Rightarrow> string option \<times> event list" where
  "whichPandoc h =
     (case exec h (whichCommand h) (whichShell h) of
        Inl e \<Rightarrow> None
      | Inr (stdout, stderr) \<Rightarrow> (if trim stdout \<noteq> [] then Some (firstLine stdout) else None),
      [Exec (whichCommand h) (whichShell h) None])"

definition notFoundMessage :: string where
  "notFoundMessage =
     [CHR 0xE6, CHR 0x9C, CHR 0xAA, CHR 0xE6, CHR 0x89, CHR 0xBE, CHR 0xE5, CHR 0x88,
     CHR 0xB0] @ ''Pandoc'' @ [CHR 0xE3, CHR 0x80, CHR 0x82, CHR 0xE8, CHR 0x99, CHR 0xBD,
     CHR 0xE7, CHR 0x84, CHR 0xB6, CHR 0xE6, CHR 0x82, CHR 0xA8, CHR 0xE5, CHR 0x8F,
     CHR 0xAF, CHR 0xE8, CHR 0x83, CHR 0xBD, CHR 0xE5, CHR 0xB7, CHR 0xB2, CHR 0xE7,
     CHR 0xBB, CHR 0x8F, CHR 0xE5, CHR 0xAE, CHR 0x89, CHR 0xE8, CHR 0xA3, CHR 0x85,
     CHR 0xEF, CHR 0xBC, CHR 0x8C, CHR 0xE4, CHR 0xBD, CHR 0x86, CHR 0xE6, CHR 0x8F,
     CHR 0x92, CHR 0xE4, CHR 0xBB, CHR 0xB6, CHR 0xE6, CHR 0x97, CHR 0xA0, CHR 0xE6,
     CHR 0xB3, CHR 0x95, CHR 0xE6, CHR 0xA3, CHR 0x80, CHR 0xE6, CHR 0xB5, CHR 0x8B,
     CHR 0xE5, CHR 0x88, CHR 0xB0, CHR 0xE3, CHR 0x80, CHR 0x82, CHR 0x0A, CHR 0x0A,
     CHR 0xE8, CHR 0xAF, CHR 0xB7, CHR 0xE5, CHR 0x9C, CHR 0xA8, CHR 0xE6, CHR 0x8F,
     CHR 0x92, CHR 0xE4, CHR 0xBB, CHR 0xB6, CHR 0xE8, CHR 0xAE, CHR 0xBE, CHR 0xE7,
     CHR 0xBD, CHR 0xAE, CHR 0xE4, CHR 0xB8, CHR 0xAD, CHR 0xE8, CHR 0xBE, CHR 0x93,
     CHR 0xE5, CHR 0x85, CHR 0xA5] @ ''Pandoc'' @ [CHR 0xE7, CHR 0x9A, CHR 0x84, CHR 0xE5,
     CHR 0xAE, CHR 0x8C, CHR 0xE6, CHR 0x95, CHR 0xB4, CHR 0xE8, CHR 0xB7, CHR 0xAF,
     CHR 0xE5, CHR 0xBE, CHR 0x84] @ ''('' @ [CHR 0xE7, CHR 0xBB, CHR 0x9D, CHR 0xE5,
     CHR 0xAF, CHR 0xB9, CHR 0xE8, CHR 0xB7, CHR 0xAF, CHR 0xE5, CHR 0xBE, CHR 0x84] @
     '')'' @ [CHR 0xEF, CHR 0xBC, CHR 0x9A, CHR 0x0A] @ ''- Windows: '' @ [CHR 0xE9,
     CHR 0x80, CHR 0x9A, CHR 0xE5, CHR 0xB8, CHR 0xB8, CHR 0xE7, CHR 0xB1, CHR 0xBB,
     CHR 0xE4, CHR 0xBC, CHR 0xBC] @ '' C:'' @ [CHR 0x5C] @ ''Program Files'' @
     [CHR 0x5C] @ ''Pandoc'' @ [CHR 0x5C] @ ''pandoc.exe'' @ [CHR 0x0A] @ ''- Mac: '' @
     [CHR 0xE9, CHR 0x80, CHR 0x9A, CHR 0xE5, CHR 0xB8, CHR 0xB8, CHR 0xE7, CHR 0xB1,
     CHR 0xBB, CHR 0xE4, CHR 0xBC, CHR 0xBC] @ '' /usr/local/bin/pandoc '' @ [CHR 0xE6,
     CHR 0x88, CHR 0x96] @ '' /opt/homebrew/bin/pandoc'' @ [CHR 0x0A] @ ''- Linux: '' @
     [CHR 0xE9, CHR 0x80, CHR 0x9A, CHR 0xE5, CHR 0xB8, CHR 0xB8, CHR 0xE7, CHR 0xB1,
     CHR 0xBB, CHR 0xE4, CHR 0xBC, CHR 0xBC] @ '' /usr/bin/pandoc'' @ [CHR 0x0A, CHR 0x0A,
     CHR 0xE5, CHR 0x8F, CHR 0xAF, CHR 0xE4, CHR 0xBB, CHR 0xA5, CHR 0xE5, CHR 0x9C,
     CHR 0xA8, CHR 0xE7, CHR 0xBB, CHR 0x88, CHR 0xE7, CHR 0xAB, CHR 0xAF, CHR 0xE8,
     CHR 0xBF, CHR 0x90, CHR 0xE8, CHR 0xA1, CHR 0x8C] @ '' '' @ [CHR 0x22] @
     ''which pandoc'' @ [CHR 0x22] @ ''(Mac/Linux) '' @ [CHR 0xE6, CHR 0x88, CHR 0x96] @
     '' '' @ [CHR 0x22] @ ''where pandoc'' @ [CHR 0x22] @ ''(Windows) '' @ [CHR 0xE6,
     CHR 0x89, CHR 0xBE, CHR 0xE5, CHR 0x88, CHR 0xB0, CHR 0xE7, CHR 0xA1, CHR 0xAE,
     CHR 0xE5, CHR 0x88, CHR 0x87, CHR 0xE8, CHR 0xB7, CHR 0xAF, CHR 0xE5, CHR 0xBE,
     CHR 0x84, CHR 0xE3, CHR 0x80, CHR 0x82]"

text \<open>
  Lines 185 to 339, entered when the configured path was not accepted: the directories,
  then \<^verbatim>\<open>mdfind\<close> on macOS, then \<^verbatim>\<open>which\<close> or \<^verbatim>\<open>where\<close>; each only when nothing was found
  before it.
\<close>

definition searchPandoc :: "host \<Rightarrow> string option \<times> event list" where
  "searchPandoc h =
     (case allPaths h of
        (dirs, ev2) \<Rightarrow>
          (case findInDirs h dirs of
             (Some p, ev3) \<Rightarrow> (Some p, ev2 @ ev3)
           | (None, ev3) \<Rightarrow>
               (case (if platform h = Darwin then mdfindPandoc h else (None, [])) of
                  (Some p, ev4) \<Rightarrow> (Some p, ev2 @ ev3 @ ev4)
                | (None, ev4) \<Rightarrow>
                    (case whichPandoc h of (found, ev5) \<Rightarrow> (found, ev2 @ ev3 @ ev4 @ ev5)))))"

text \<open>
  Lines 148 to 351 as a whole: the path that the command line will use, or the message
  of the error thrown when nothing was found.
\<close>

definition resolvePandoc :: "host \<Rightarrow> string \<Rightarrow> (string + string) \<times> event list" where
  "resolvePandoc h hint =
     (case userPath h hint of
        ((exe, pandocFound), ev1) \<Rightarrow>
          (if pandocFound then (Inr exe, ev1)
           else (case searchPandoc h of
                   (Some p, ev) \<Rightarrow> (Inr p, ev1 @ ev)
                 | (None, ev) \<Rightarrow> (Inl notFoundMessage, ev1 @ ev))))"

section \<open>The export directory\<close>

text \<open>
  The part of the file system that the plugin changes (the files it writes and removes,
  the directories it creates), and the trace of what it did.
\<close>

record world =
  fs_files :: "string \<rightharpoonup> string"
  fs_dirs :: "string set"
  trace :: "event list"

definition emit :: "event list \<Rightarrow> world \<Rightarrow> world" where
  "emit evs w = w\<lparr>trace := trace w @ evs\<rparr>"

definition mkdirFailedNotice :: string where
  "mkdirFailedNotice =
     [CHR 0xE5, CHR 0x88, CHR 0x9B, CHR 0xE5, CHR 0xBB, CHR 0xBA, CHR 0xE5, CHR 0xAF,
     CHR 0xBC, CHR 0xE5, CHR 0x87, CHR 0xBA, CHR 0xE7, CHR 0x9B, CHR 0xAE, CHR 0xE5,
     CHR 0xBD, CHR 0x95, CHR 0xE5, CHR 0xA4, CHR 0xB1, CHR 0xE8, CHR 0xB4, CHR 0xA5,
     CHR 0xE3, CHR 0x80, CHR 0x82, CHR 0xE8, CHR 0xAF, CHR 0xB7, CHR 0xE6, CHR 0x9F,
     CHR 0xA5, CHR 0xE7, CHR 0x9C, CHR 0x8B, CHR 0xE6, CHR 0x8E, CHR 0xA7, CHR 0xE5,
     CHR 0x88, CHR 0xB6, CHR 0xE5, CHR 0x8F, CHR 0xB0, CHR 0xE8, CHR 0x8E, CHR 0xB7,
     CHR 0xE5, CHR 0x8F, CHR 0x96, CHR 0xE8, CHR 0xAF, CHR 0xA6, CHR 0xE7, CHR 0xBB,
     CHR 0x86, CHR 0xE4, CHR 0xBF, CHR 0xA1, CHR 0xE6, CHR 0x81, CHR 0xAF, CHR 0xE3,
     CHR 0x80, CHR 0x82]"

definition getVaultPath :: "host \<Rightarrow> string" where
  "getVaultPath h = (case vault_basePath h of Some basePath \<Rightarrow> basePath | None \<Rightarrow> [])"

text \<open>
  \<^verbatim>\<open>fs.promises.mkdir(p, { recursive: true })\<close>: no error when the directory exists. The
  parents that the call creates on the way are not recorded.
\<close>

definition mkdir :: "host \<Rightarrow> string \<Rightarrow> world \<Rightarrow> string + world" where
  "mkdir h p w =
     (case mkdir_error h p of
        Some e \<Rightarrow> Inl e
      | None \<Rightarrow> Inr (emit [Mkdir p True] (w\<lparr>fs_dirs := insert p (fs_dirs w)\<rparr>)))"

text \<open>Lines 114 to 117: a relative export directory is taken from the vault.\<close>

definition resolvedExportPath :: "host \<Rightarrow> settings \<Rightarrow> string" where
  "resolvedExportPath h s =
     (if path_isAbsolute h (defaultExportDirectory s) then defaultExportDirectory s
      else path_join h (getVaultPath h) (defaultExportDirectory s))"

definition getExportDirectory :: "host \<Rightarrow> settings \<Rightarrow> world \<Rightarrow> string \<times> world" where
  "getExportDirectory h s w =
     (if defaultExportDirectory s = [] then (getVaultPath h, w)
      else
        (case mkdir h (resolvedExportPath h s) w of
           Inl e \<Rightarrow>
             (getVaultPath h,
              emit [Mkdir (resolvedExportPath h s) False, ConsoleError e,
                    Notice mkdirFailedNotice] w)
         | Inr w' \<Rightarrow> (resolvedExportPath h s, w')))"

section \<open>The export\<close>

record tfile =
  file_path :: string
  basename :: string

text \<open>Lines 354 to 358: the extra arguments, with the PDF engine in front.\<close>

definition extraArgs :: "settings \<Rightarrow> string \<Rightarrow> string" where
  "extraArgs s format =
     (if format = ''pdf'' \<and> pdfEngine s \<noteq> ''auto''
      then ''--pdf-engine='' @ pdfEngine s @ '' '' @ customArguments s
      else customArguments s)"

text \<open>Lines 361 to 369: the command line.\<close>

definition command :: "host \<Rightarrow> string \<Rightarrow> string \<Rightarrow> string \<Rightarrow> string \<Rightarrow> string" where
  "command h exe tempFilePath outputPath args =
     (if platform h = Win32
      then [CHR 0x22] @ exe @ [CHR 0x22] @ '' '' @ [CHR 0x22] @ tempFilePath @ [CHR 0x22] @
           '' -o '' @ [CHR 0x22] @ outputPath @ [CHR 0x22] @ '' '' @ args
      else ''/bin/bash -c '' @ [CHR 0x22] @ exe @ '' '' @ [CHR 0x27] @ tempFilePath @ [CHR 0x27] @
           '' -o '' @ [CHR 0x27] @ outputPath @ [CHR 0x27] @ '' '' @ args @ [CHR 0x22])"

text \<open>Lines 374 to 383: the options of the call, \<^verbatim>\<open>shell\<close> and \<^verbatim>\<open>env\<close>.\<close>

definition execShell :: "host \<Rightarrow> string option" where
  "execShell h = (if platform h \<noteq> Win32 then Some ''/bin/bash'' else None)"

subsection \<open>The \<^verbatim>\<open>catch\<close> block\<close>

definition unknownError :: string where
  "unknownError =
     [CHR 0xE6, CHR 0x9C, CHR 0xAA, CHR 0xE7, CHR 0x9F, CHR 0xA5, CHR 0xE9, CHR 0x94,
     CHR 0x99, CHR 0xE8, CHR 0xAF, CHR 0xAF]"

definition notFoundMarker :: string where
  "notFoundMarker =
     [CHR 0xE6, CHR 0x9C, CHR 0xAA, CHR 0xE6, CHR 0x89, CHR 0xBE, CHR 0xE5, CHR 0x88,
     CHR 0xB0] @ ''Pandoc''"

definition toolNotFoundText :: string where
  "toolNotFoundText =
     ''Pandoc'' @ [CHR 0xE5, CHR 0x91, CHR 0xBD, CHR 0xE4, CHR 0xBB, CHR 0xA4, CHR 0xE6,
     CHR 0x9C, CHR 0xAA, CHR 0xE6, CHR 0x89, CHR 0xBE, CHR 0xE5, CHR 0x88, CHR 0xB0,
     CHR 0xE3, CHR 0x80, CHR 0x82, CHR 0x0A, CHR 0x0A, CHR 0xE8, CHR 0xAF, CHR 0xB7,
     CHR 0xE5, CHR 0x9C, CHR 0xA8, CHR 0xE6, CHR 0x8F, CHR 0x92, CHR 0xE4, CHR 0xBB,
     CHR 0xB6, CHR 0xE8, CHR 0xAE, CHR 0xBE, CHR 0xE7, CHR 0xBD, CHR 0xAE, CHR 0xE4,
     CHR 0xB8, CHR 0xAD, CHR 0xE8, CHR 0xBE, CHR 0x93, CHR 0xE5, CHR 0x85, CHR 0xA5] @
     ''Pandoc'' @ [CHR 0xE7, CHR 0x9A, CHR 0x84, CHR 0xE5, CHR 0xAE, CHR 0x8C, CHR 0xE6,
     CHR 0x95, CHR 0xB4, CHR 0xE7, CHR 0xBB, CHR 0x9D, CHR 0xE5, CHR 0xAF, CHR 0xB9,
     CHR 0xE8, CHR 0xB7, CHR 0xAF, CHR 0xE5, CHR 0xBE, CHR 0x84, CHR 0xEF, CHR 0xBC,
     CHR 0x9A, CHR 0x0A] @ ''- Windows: '' @ [CHR 0xE9, CHR 0x80, CHR 0x9A, CHR 0xE5,
     CHR 0xB8, CHR 0xB8, CHR 0xE7, CHR 0xB1, CHR 0xBB, CHR 0xE4, CHR 0xBC, CHR 0xBC] @
     '' C:'' @ [CHR 0x5C] @ ''Program Files'' @ [CHR 0x5C] @ ''Pandoc'' @ [CHR 0x5C] @
     ''pandoc.exe'' @ [CHR 0x0A] @ ''- Mac: '' @ [CHR 0xE9, CHR 0x80, CHR 0x9A, CHR 0xE5,
     CHR 0xB8, CHR 0xB8, CHR 0xE7, CHR 0xB1, CHR 0xBB, CHR 0xE4, CHR 0xBC, CHR 0xBC] @
     '' /usr/local/bin/pandoc '' @ [CHR 0xE6, CHR 0x88, CHR 0x96] @
     '' /opt/homebrew/bin/pandoc'' @ [CHR 0x0A] @ ''- Linux: '' @ [CHR 0xE9, CHR 0x80,
     CHR 0x9A, CHR 0xE5, CHR 0xB8, CHR 0xB8, CHR 0xE7, CHR 0xB1, CHR 0xBB, CHR 0xE4,
     CHR 0xBC, CHR 0xBC] @ '' /usr/bin/pandoc'' @ [CHR 0x0A, CHR 0x0A, CHR 0xE5, CHR 0x8F,
     CHR 0xAF, CHR 0xE4, CHR 0xBB, CHR 0xA5, CHR 0xE5, CHR 0x9C, CHR 0xA8, CHR 0xE7,
     CHR 0xBB, CHR 0x88, CHR 0xE7, CHR 0xAB, CHR 0xAF, CHR 0xE8, CHR 0xBF, CHR 0x90,
     CHR 0xE8, CHR 0xA1, CHR 0x8C] @ '' '' @ [CHR 0x22] @ ''which pandoc'' @ [CHR 0x22] @
     ''(Mac/Linux) '' @ [CHR 0xE6, CHR 0x88, CHR 0x96] @ '' '' @ [CHR 0x22] @
     ''where pandoc'' @ [CHR 0x22] @ ''(Windows) '' @ [CHR 0xE6, CHR 0x9F, CHR 0xA5,
     CHR 0xE6, CHR 0x89, CHR 0xBE, CHR 0xE8, CHR 0xB7, CHR 0xAF, CHR 0xE5, CHR 0xBE,
     CHR 0x84, CHR 0xE3, CHR 0x80, CHR 0x82, CHR 0x0A, CHR 0xE6, CHR 0xB3, CHR 0xA8,
     CHR 0xE6, CHR 0x84, CHR 0x8F, CHR 0xEF, CHR 0xBC, CHR 0x9A, CHR 0xE5, CHR 0x8D,
     CHR 0xB3, CHR 0xE4, CHR 0xBD, CHR 0xBF] @ ''Pandoc'' @ [CHR 0xE5, CHR 0x9C, CHR 0xA8,
     CHR 0xE7, CHR 0x8E, CHR 0xAF, CHR 0xE5, CHR 0xA2, CHR 0x83, CHR 0xE5, CHR 0x8F,
     CHR 0x98, CHR 0xE9, CHR 0x87, CHR 0x8F, CHR 0xE4, CHR 0xB8, CHR 0xAD, CHR 0xEF,
     CHR 0xBC, CHR 0x8C] @ ''Obsidian'' @ [CHR 0xE4, CHR 0xB9, CHR 0x9F, CHR 0xE5,
     CHR 0x8F, CHR 0xAF, CHR 0xE8, CHR 0x83, CHR 0xBD, CHR 0xE6, CHR 0x97, CHR 0xA0,
     CHR 0xE6, CHR 0xB3, CHR 0x95, CHR 0xE8, CHR 0xAF, CHR 0x86, CHR 0xE5, CHR 0x88,
     CHR 0xAB, CHR 0xEF, CHR 0xBC, CHR 0x8C, CHR 0xE9, CHR 0x9C, CHR 0x80, CHR 0xE8,
     CHR 0xA6, CHR 0x81, CHR 0xE8, CHR 0xAE, CHR 0xBE, CHR 0xE7, CHR 0xBD, CHR 0xAE,
     CHR 0xE5, CHR 0xAE, CHR 0x8C, CHR 0xE6, CHR 0x95, CHR 0xB4, CHR 0xE8, CHR 0xB7,
     CHR 0xAF, CHR 0xE5, CHR 0xBE, CHR 0x84, CHR 0xE3, CHR 0x80, CHR 0x82]"

definition engineTextPrefix :: string where
  "engineTextPrefix =
     [CHR 0xE7, CHR 0x94, CHR 0x9F, CHR 0xE6, CHR 0x88, CHR 0x90] @ ''PDF'' @ [CHR 0xE9,
     CHR 0x9C, CHR 0x80, CHR 0xE8, CHR 0xA6, CHR 0x81, CHR 0xE5, CHR 0xAF, CHR 0xB9,
     CHR 0xE5, CHR 0xBA, CHR 0x94, CHR 0xE7, CHR 0x9A, CHR 0x84, CHR 0xE5, CHR 0xBC,
     CHR 0x95, CHR 0xE6, CHR 0x93, CHR 0x8E, CHR 0xE3, CHR 0x80, CHR 0x82, CHR 0xE9,
     CHR 0x94, CHR 0x99, CHR 0xE8, CHR 0xAF, CHR 0xAF] @ '': ''"

definition engineTextSuffix :: string where
  "engineTextSuffix =
     [CHR 0x0A, CHR 0x0A, CHR 0xE6, CHR 0x82, CHR 0xA8, CHR 0xE5, CHR 0x8F, CHR 0xAF,
     CHR 0xE4, CHR 0xBB, CHR 0xA5] @ '':'' @ [CHR 0x0A] @ ''1. '' @ [CHR 0xE5, CHR 0xAE,
     CHR 0x89, CHR 0xE8, CHR 0xA3, CHR 0x85] @ ''LaTeX'' @ [CHR 0xE7, CHR 0x8E, CHR 0xAF,
     CHR 0xE5, CHR 0xA2, CHR 0x83] @ '':'' @ [CHR 0x0A] @
     ''  - Mac: brew install --cask mactex-no-gui'' @ [CHR 0x0A] @ ''  - Windows: '' @
     [CHR 0xE5, CHR 0xAE, CHR 0x89, CHR 0xE8, CHR 0xA3, CHR 0x85] @
     ''MiKTeX (https://miktex.org/)'' @ [CHR 0x0A] @ ''  - Linux: '' @ [CHR 0xE5, CHR 0xAE,
     CHR 0x89, CHR 0xE8, CHR 0xA3, CHR 0x85] @ ''texlive-full '' @ [CHR 0xE5, CHR 0x8C,
     CHR 0x85, CHR 0x0A, CHR 0x0A] @ ''2. '' @ [CHR 0xE6, CHR 0x88, CHR 0x96, CHR 0xE5,
     CHR 0x9C, CHR 0xA8, CHR 0xE8, CHR 0xAE, CHR 0xBE, CHR 0xE7, CHR 0xBD, CHR 0xAE,
     CHR 0xE4, CHR 0xB8, CHR 0xAD, CHR 0xE9, CHR 0x80, CHR 0x89, CHR 0xE6, CHR 0x8B,
     CHR 0xA9] @ ''HTML-PDF'' @ [CHR 0xE5, CHR 0xBC, CHR 0x95, CHR 0xE6, CHR 0x93,
     CHR 0x8E] @ '' ('' @ [CHR 0xE5, CHR 0xA6, CHR 0x82] @ ''wkhtmltopdf)'' @ [CHR 0xEF,
     CHR 0xBC, CHR 0x8C, CHR 0xE7, CHR 0x84, CHR 0xB6, CHR 0xE5, CHR 0x90, CHR 0x8E,
     CHR 0xE5, CHR 0xAE, CHR 0x89, CHR 0xE8, CHR 0xA3, CHR 0x85] @ '':'' @ [CHR 0x0A] @
     ''  - Mac: brew install wkhtmltopdf'' @ [CHR 0x0A] @ ''  - Windows: '' @ [CHR 0xE4,
     CHR 0xBB, CHR 0x8E] @ '' https://wkhtmltopdf.org/downloads.html '' @ [CHR 0xE4,
     CHR 0xB8, CHR 0x8B, CHR 0xE8, CHR 0xBD, CHR 0xBD, CHR 0x0A] @
     ''  - Linux: sudo apt install wkhtmltopdf''"

definition failedPrefix :: string where
  "failedPrefix =
     [CHR 0xE5, CHR 0xAF, CHR 0xBC, CHR 0xE5, CHR 0x87, CHR 0xBA, CHR 0xE5, CHR 0xA4,
     CHR 0xB1, CHR 0xE8, CHR 0xB4, CHR 0xA5] @ '': ''"

definition failedSuffix :: string where
  "failedSuffix =
     [CHR 0x0A, CHR 0x0A, CHR 0xE6, CHR 0x9F, CHR 0xA5, CHR 0xE7, CHR 0x9C, CHR 0x8B,
     CHR 0xE5, CHR 0xBC, CHR 0x80, CHR 0xE5, CHR 0x8F, CHR 0x91, CHR 0xE8, CHR 0x80,
     CHR 0x85, CHR 0xE6, CHR 0x8E, CHR 0xA7, CHR 0xE5, CHR 0x88, CHR 0xB6, CHR 0xE5,
     CHR 0x8F, CHR 0xB0] @ ''(Ctrl+Shift+I)'' @ [CHR 0xE8, CHR 0x8E, CHR 0xB7, CHR 0xE5,
     CHR 0x8F, CHR 0x96, CHR 0xE8, CHR 0xAF, CHR 0xA6, CHR 0xE7, CHR 0xBB, CHR 0x86,
     CHR 0xE4, CHR 0xBF, CHR 0xA1, CHR 0xE6, CHR 0x81, CHR 0xAF, CHR 0xE3, CHR 0x80,
     CHR 0x82]"

definition succeededPrefix :: string where
  "succeededPrefix =
     [CHR 0xE6, CHR 0x88, CHR 0x90, CHR 0xE5, CHR 0x8A, CHR 0x9F, CHR 0xE5, CHR 0xAF,
     CHR 0xBC, CHR 0xE5, CHR 0x87, CHR 0xBA, CHR 0xE5, CHR 0x88, CHR 0xB0] @ '' ''"

text \<open>The three branches of lines 402 to 423, by the text of the error.\<close>

datatype failure = ToolNotFound | EngineMissing | OtherFailure

definition classify :: "string \<Rightarrow> failure" where
  "classify errorMsg =
     (if includesStr errorMsg ''command not found'' \<or> includesStr errorMsg ''not recognized'' \<or>
         includesStr errorMsg notFoundMarker
      then ToolNotFound
      else if includesStr errorMsg ''pdflatex not found'' \<or> includesStr errorMsg ''xelatex'' \<or>
              includesStr errorMsg ''wkhtmltopdf'' \<or> includesStr errorMsg ''weasyprint''
      then EngineMissing
      else OtherFailure)"

text \<open>Lines 400 to 423: the text shown for an error with the given message.\<close>

definition errorText :: "string \<Rightarrow> string" where
  "errorText message =
     (let errorMsg = (if message = [] then unknownError else message) in
      case classify errorMsg of
        ToolNotFound \<Rightarrow> toolNotFoundText
      | EngineMissing \<Rightarrow> engineTextPrefix @ errorMsg @ engineTextSuffix
      | OtherFailure \<Rightarrow> errorMsg)"

text \<open>
  Lines 396 to 462. The diagnostic lines between the classification and the notice only
  write to the console, each inside a \<^verbatim>\<open>try\<close> of its own.
\<close>

definition catchError :: "string \<Rightarrow> world \<Rightarrow> world" where
  "catchError message w =
     emit [ConsoleError message, Notice (failedPrefix @ errorText message @ failedSuffix)] w"

subsection \<open>\<^verbatim>\<open>exportFile\<close>\<close>

definition writeFile :: "host \<Rightarrow> string \<Rightarrow> string \<Rightarrow> world \<Rightarrow> string + world" where
  "writeFile h p content w =
     (case writeFile_error h p of
        Some e \<Rightarrow> Inl e
      | None \<Rightarrow> Inr (emit [WriteFile p True] (w\<lparr>fs_files := (fs_files w)(p \<mapsto> content)\<rparr>)))"

definition unlink :: "host \<Rightarrow> string \<Rightarrow> world \<Rightarrow> string + world" where
  "unlink h p w =
     (case unlink_error h p of
        Some e \<Rightarrow> Inl e
      | None \<Rightarrow>
          (if fs_files w p = None
           then Inl (''ENOENT: no such file or directory, unlink '' @ [CHR 0x27] @ p @ [CHR 0x27])
           else Inr (emit [Unlink p True] (w\<lparr>fs_files := (fs_files w)(p := None)\<rparr>))))"

definition tempFilePath :: "host \<Rightarrow> tfile \<Rightarrow> string" where
  "tempFilePath h file = path_join h (tmpdir h) (basename file @ ''-temp.md'')"

text \<open>
  Lines 386 to 395: the command is run; a warning for a standard error that is not
  empty; the temporary file is removed; the notice of success. What pandoc itself does
  to the file system is outside the model.
\<close>

definition runPandoc :: "host \<Rightarrow> string \<Rightarrow> string \<Rightarrow> string \<Rightarrow> world \<Rightarrow> world" where
  "runPandoc h cmd tmp outputPath w =
     (let w1 = emit [Exec cmd (execShell h) (Some (env h))] w in
      case exec h cmd (execShell h) of
        Inl e \<Rightarrow> catchError e w1
      | Inr (stdout, stderr) \<Rightarrow>
          (let w2 = (if stderr \<noteq> [] then emit [ConsoleWarning stderr] w1 else w1) in
           case unlink h tmp w2 of
             Inl e \<Rightarrow> catchError e (emit [Unlink tmp False] w2)
           | Inr w3 \<Rightarrow> emit [Notice (succeededPrefix @ path_basename h outputPath)] w3))"

definition exportFile :: "host \<Rightarrow> settings \<Rightarrow> tfile \<Rightarrow> string \<Rightarrow> string \<Rightarrow> world \<Rightarrow> world" where
  "exportFile h s file format outputPath w =
     (case vault_read h (file_path file) of
        Inl e \<Rightarrow> catchError e w
      | Inr content \<Rightarrow>
          (case writeFile h (tempFilePath h file) content w of
             Inl e \<Rightarrow> catchError e (emit [WriteFile (tempFilePath h file) False] w)
           | Inr w1 \<Rightarrow>
               (case resolvePandoc h (pandocPath s) of
                  (Inl e, evs) \<Rightarrow> catchError e (emit evs w1)
                | (Inr exe, evs) \<Rightarrow>
                    runPandoc h
                      (command h exe (tempFilePath h file) outputPath (extraArgs s format))
                      (tempFilePath h file) outputPath (emit evs w1))))"

text \<open>
  The world when the command is about to run: the temporary file is written and the
  search for pandoc is over.
\<close>

definition started :: "host \<Rightarrow> settings \<Rightarrow> tfile \<Rightarrow> string \<Rightarrow> world \<Rightarrow> world" where
  "started h s file content w =
     emit (snd (resolvePandoc h (pandocPath s)))
       (emit [WriteFile (tempFilePath h file) True]
          (w\<lparr>fs_files := (fs_files w)(tempFilePath h file \<mapsto> content)\<rparr>))"

section \<open>The classification as the specification words it\<close>

text \<open>
  The specification names the tool-absence indicators \<^verbatim>\<open>command not found\<close> and
  \<^verbatim>\<open>not recognized\<close> and the engine indicators pdflatex, xelatex, wkhtmltopdf and
  weasyprint. This is that reading, for comparison with \<^const>\<open>classify\<close>.
\<close>

definition claimedClassify :: "string \<Rightarrow> failure" where
  "claimedClassify errorMsg =
     (if includesStr errorMsg ''command not found'' \<or> includesStr errorMsg ''not recognized''
      then ToolNotFound
      else if includesStr errorMsg ''pdflatex'' \<or> includesStr errorMsg ''xelatex'' \<or>
              includesStr errorMsg ''wkhtmltopdf'' \<or> includesStr errorMsg ''weasyprint''
      then EngineMissing
      else OtherFailure)"

section \<open>Example hosts\<close>

text \<open>
  A Linux machine with pandoc in \<^verbatim>\<open>/usr/bin\<close>, on which every command fails; the other
  examples are variations of it. Its \<^verbatim>\<open>path.join\<close> puts a slash between its two arguments,
  which is what Node does for the arguments used here.
\<close>

definition linuxHost :: host where
  "linuxHost =
     \<lparr>platform = Linux, cwd = ''/home/u'', homedir = ''/home/u'', tmpdir = ''/tmp'',
      env = [(''HOME'', ''/home/u''), (''PATH'', ''/usr/local/sbin:/usr/bin'')],
      path_isAbsolute = (\<lambda>p. startsWith p ''/''),
      path_join = (\<lambda>a b. a @ ''/'' @ b),
      path_basename = (\<lambda>p. rev (takeWhile (\<lambda>c. c \<noteq> CHR ''/'') (rev p))),
      access_X_OK = (\<lambda>p. p = ''/usr/bin/pandoc''),
      existsSync = (\<lambda>p. False),
      readFileSync = (\<lambda>p. None),
      exec = (\<lambda>c sh. Inl ''Command failed''),
      vault_basePath = Some ''/vault'',
      vault_read = (\<lambda>p. Inr ''# Title''),
      writeFile_error = (\<lambda>p. None),
      unlink_error = (\<lambda>p. None),
      mkdir_error = (\<lambda>p. None)\<rparr>"

text \<open>Nothing is executable, but \<^verbatim>\<open>which pandoc\<close> prints a path.\<close>

definition whichHost :: host where
  "whichHost =
     linuxHost\<lparr>access_X_OK := (\<lambda>p. False),
       exec := (\<lambda>c sh. if c = ''which pandoc'' then Inr (''/home/u/.cabal/bin/pandoc'' @ [CHR 0x0A], [])
                        else Inl ''Command failed'')\<rparr>"

text \<open>A Mac on which nothing is executable and every command fails.\<close>

definition macHost :: host where
  "macHost = linuxHost\<lparr>platform := Darwin, access_X_OK := (\<lambda>p. False)\<rparr>"

text \<open>A Windows machine with \<^verbatim>\<open>C:\tools\pandoc.exe\<close> and nothing else.\<close>

definition windowsHost :: host where
  "windowsHost =
     linuxHost\<lparr>platform := Win32, cwd := ''C:'' @ [CHR 0x5C] @ ''Users'' @ [CHR 0x5C] @ ''u'',
       tmpdir := ''C:'' @ [CHR 0x5C] @ ''Temp'',
       env := [(''PATH'', ''C:'' @ [CHR 0x5C] @ ''Windows'')],
       path_isAbsolute := (\<lambda>p. startsWith p (''C:'' @ [CHR 0x5C])),
       path_join := (\<lambda>a b. a @ [CHR 0x5C] @ b),
       path_basename := (\<lambda>p. rev (takeWhile (\<lambda>c. c \<noteq> CHR 0x5C) (rev p))),
       access_X_OK := (\<lambda>p. p = ''C:'' @ [CHR 0x5C] @ ''tools'' @ [CHR 0x5C] @ ''pandoc.exe''),
       exec := (\<lambda>c sh. Inr ([], []))\<rparr>"

text \<open>Pandoc is installed in two places, one of them under a directory with a space.\<close>

definition twoPandocs :: host where
  "twoPandocs =
     linuxHost\<lparr>access_X_OK := (\<lambda>p. p = ''/usr/bin/pandoc'' \<or> p = ''/opt/my tools/pandoc'')\<rparr>"

definition noteFile :: tfile where
  "noteFile = \<lparr>file_path = ''notes/note.md'', basename = ''note''\<rparr>"

definition emptyWorld :: world where
  "emptyWorld = \<lparr>fs_files = Map.empty, fs_dirs = {}, trace = []\<rparr>"

text \<open>The export directory cannot be created.\<close>

definition readOnlyHost :: host where
  "readOnlyHost = linuxHost\<lparr>mkdir_error := (\<lambda>p. Some ''EACCES: permission denied'')\<rparr>"

text \<open>Pandoc runs and warns; pandoc cannot find its PDF engine; the file cannot be removed.\<close>

definition warningHost :: host where
  "warningHost = linuxHost\<lparr>exec := (\<lambda>c sh. Inr ([], ''[WARNING] Missing character''))\<rparr>"

definition engineHost :: host where
  "engineHost =
     linuxHost\<lparr>exec := (\<lambda>c sh.
       Inl ''xelatex not found. Please select a different --pdf-engine or install xelatex'')\<rparr>"

definition pdflatexHost :: host where
  "pdflatexHost =
     linuxHost\<lparr>exec := (\<lambda>c sh.
       Inl ''pandoc: pdflatex: createProcess: does not exist (No such file or directory)'')\<rparr>"

definition unlinkFailHost :: host where
  "unlinkFailHost =
     linuxHost\<lparr>exec := (\<lambda>c sh. Inr ([], [])),
       unlink_error := (\<lambda>p. Some ''EPERM: operation not permitted'')\<rparr>"

section \<open>Facts about the string primitives\<close>

lemma startsWith_iff: "startsWith s p \<longleftrightarrow> (\<exists>r. s = p @ r)"
  by (induction s p rule: startsWith.induct) auto

lemma includesStr_iff: "includesStr s x \<longleftrightarrow> (\<exists>a b. s = a @ x @ b)"
proof (induction s)
  case Nil
  then show ?case by auto
next
  case (Cons c cs)
  show ?case
  proof
    assume "includesStr (c # cs) x"
    then consider "startsWith (c # cs) x" | "includesStr cs x" by auto
    then show "\<exists>a b. c # cs = a @ x @ b"
    proof cases
      case 1
      then obtain r where "c # cs = x @ r" by (auto simp: startsWith_iff)
      then have "c # cs = [] @ x @ r" by simp
      then show ?thesis by blast
    next
      case 2
      with Cons obtain a b where "cs = a @ x @ b" by auto
      then have "c # cs = (c # a) @ x @ b" by simp
      then show ?thesis by blast
    qed
  next
    assume "\<exists>a b. c # cs = a @ x @ b"
    then obtain a b where ab: "c # cs = a @ x @ b" by auto
    show "includesStr (c # cs) x"
    proof (cases a)
      case Nil
      with ab have "startsWith (c # cs) x" by (auto simp: startsWith_iff)
      then show ?thesis by simp
    next
      case (Cons a0 as)
      with ab have "cs = as @ x @ b" by simp
      with Cons.IH show ?thesis by auto
    qed
  qed
qed

lemma includesStr_middle: "includesStr (a @ x @ b) x"
  by (auto simp: includesStr_iff)

lemma includesStr_inside: "includesStr t x \<Longrightarrow> includesStr (a @ t @ b) x"
proof -
  assume "includesStr t x"
  then obtain c d where "t = c @ x @ d" by (auto simp: includesStr_iff)
  then have "a @ t @ b = (a @ c) @ x @ (d @ b)" by simp
  then show ?thesis unfolding includesStr_iff by blast
qed

lemma startsWith_includesStr: "startsWith s p \<Longrightarrow> includesStr s p"
proof -
  assume "startsWith s p"
  then obtain r where "s = [] @ p @ r" by (auto simp: startsWith_iff)
  then show ?thesis unfolding includesStr_iff by blast
qed

section \<open>The command line holds the extra arguments\<close>

lemma command_includes_args:
  "includesStr args x \<Longrightarrow> includesStr (command h exe tmp out args) x"
proof -
  assume a: "includesStr args x"
  show ?thesis
  proof (cases "platform h = Win32")
    case True
    have "includesStr (([CHR 0x22] @ exe @ [CHR 0x22] @ '' '' @ [CHR 0x22] @ tmp @ [CHR 0x22] @
            '' -o '' @ [CHR 0x22] @ out @ [CHR 0x22] @ '' '') @ args @ []) x"
      using a by (rule includesStr_inside)
    with True show ?thesis by (simp add: command_def)
  next
    case False
    have "includesStr ((''/bin/bash -c '' @ [CHR 0x22] @ exe @ '' '' @ [CHR 0x27] @ tmp @
            [CHR 0x27] @ '' -o '' @ [CHR 0x27] @ out @ [CHR 0x27] @ '' '') @ args @ [CHR 0x22]) x"
      using a by (rule includesStr_inside)
    with False show ?thesis by (simp add: command_def)
  qed
qed

section \<open>The trace and the files\<close>

lemma trace_emit: "trace (emit evs w) = trace w @ evs"
  by (simp add: emit_def)

lemma fs_files_emit: "fs_files (emit evs w) = fs_files w"
  by (simp add: emit_def)

lemma trace_catchError:
  "trace (catchError m w) =
     trace w @ [ConsoleError m, Notice (failedPrefix @ errorText m @ failedSuffix)]"
  by (simp add: catchError_def trace_emit)

lemma fs_files_catchError: "fs_files (catchError m w) = fs_files w"
  by (simp add: catchError_def fs_files_emit)

lemma exportFile_found:
  assumes "vault_read h (file_path file) = Inr content"
    and "writeFile_error h (tempFilePath h file) = None"
    and "fst (resolvePandoc h (pandocPath s)) = Inr exe"
  shows "exportFile h s file format out w =
           runPandoc h (command h exe (tempFilePath h file) out (extraArgs s format))
             (tempFilePath h file) out (started h s file content w)"
  using assms by (auto simp: exportFile_def writeFile_def started_def split: prod.splits)

lemma exportFile_not_found:
  assumes "vault_read h (file_path file) = Inr content"
    and "writeFile_error h (tempFilePath h file) = None"
    and "fst (resolvePandoc h (pandocPath s)) = Inl m"
  shows "exportFile h s file format out w = catchError m (started h s file content w)"
  using assms by (auto simp: exportFile_def writeFile_def started_def split: prod.splits)

lemma trace_started:
  "trace (started h s file content w) =
     trace w @ WriteFile (tempFilePath h file) True # snd (resolvePandoc h (pandocPath s))"
  by (simp add: started_def trace_emit)

lemma fs_files_started:
  "fs_files (started h s file content w) = (fs_files w)(tempFilePath h file \<mapsto> content)"
  by (simp add: started_def fs_files_emit)

lemma runPandoc_rejected:
  "exec h cmd (execShell h) = Inl m \<Longrightarrow>
     runPandoc h cmd tmp out w = catchError m (emit [Exec cmd (execShell h) (Some (env h))] w)"
  by (simp add: runPandoc_def)

lemma runPandoc_resolved:
  assumes "exec h cmd (execShell h) = Inr (stdout, stderr)"
    and "unlink_error h tmp = None" and "fs_files w tmp \<noteq> None"
  shows "trace (runPandoc h cmd tmp out w) =
           trace w @ Exec cmd (execShell h) (Some (env h)) #
             (if stderr \<noteq> [] then [ConsoleWarning stderr] else []) @
             [Unlink tmp True, Notice (succeededPrefix @ path_basename h out)]"
    and "fs_files (runPandoc h cmd tmp out w) = (fs_files w)(tmp := None)"
  using assms by (auto simp: runPandoc_def unlink_def emit_def Let_def)

lemma runPandoc_unlink_failed:
  assumes "exec h cmd (execShell h) = Inr (stdout, stderr)"
    and "unlink_error h tmp = Some e"
  shows "trace (runPandoc h cmd tmp out w) =
           trace w @ Exec cmd (execShell h) (Some (env h)) #
             (if stderr \<noteq> [] then [ConsoleWarning stderr] else []) @
             [Unlink tmp False, ConsoleError e,
              Notice (failedPrefix @ errorText e @ failedSuffix)]"
  using assms by (auto simp: runPandoc_def unlink_def emit_def catchError_def Let_def)

lemma errorText_cases:
  assumes "m \<noteq> []"
  shows "errorText m =
     (case classify m of
        ToolNotFound \<Rightarrow> toolNotFoundText
      | EngineMissing \<Rightarrow> engineTextPrefix @ m @ engineTextSuffix
      | OtherFailure \<Rightarrow> m)"
  using assms by (simp add: errorText_def)

section \<open>The search, step by step\<close>

lemma accessOrExe_True:
  assumes "fst (accessOrExe h p)"
  shows "(access_X_OK h p \<and> snd (accessOrExe h p) = [Access p True]) \<or>
         (platform h = Win32 \<and> \<not> endsWith p ''.exe'' \<and> \<not> access_X_OK h p \<and>
          access_X_OK h (p @ ''.exe'') \<and>
          snd (accessOrExe h p) = [Access p False, Access (p @ ''.exe'') True])"
  using assms by (auto simp: accessOrExe_def split: if_splits)

lemma accessOrExe_False:
  "\<not> fst (accessOrExe h p) \<longleftrightarrow>
     \<not> access_X_OK h p \<and>
     (platform h = Win32 \<and> \<not> endsWith p ''.exe'' \<longrightarrow> \<not> access_X_OK h (p @ ''.exe''))"
  by (auto simp: accessOrExe_def)

lemma accessOrExe_events:
  "e \<in> set (snd (accessOrExe h p)) \<Longrightarrow> \<exists>q. e = Access q (access_X_OK h q)"
  by (auto simp: accessOrExe_def split: if_splits)

lemma userPath_found:
  assumes "snd (fst (userPath h hint))"
  shows "fst (accessOrExe h (fst (fst (userPath h hint)))) \<and>
         snd (userPath h hint) = snd (accessOrExe h (fst (fst (userPath h hint))))"
  using assms by (auto simp: userPath_def Let_def case_prod_beta split: if_splits)

lemma userPath_events:
  "e \<in> set (snd (userPath h hint)) \<Longrightarrow> \<exists>q. e = Access q (access_X_OK h q)"
  by (auto simp: userPath_def Let_def case_prod_beta split: if_splits dest: accessOrExe_events)

lemma userPath_rejected:
  "path_isAbsolute h hint \<Longrightarrow> \<not> fst (accessOrExe h hint) \<Longrightarrow> \<not> snd (fst (userPath h hint))"
  by (simp add: userPath_def case_prod_beta)

lemma userPath_default: "\<not> snd (fst (userPath h ''pandoc''))"
  by (simp add: userPath_def)

lemma findInDirs_find:
  "fst (findInDirs h ds) =
     map_option (\<lambda>d. path_join h d (exeName h))
       (find (\<lambda>d. d \<noteq> [] \<and> access_X_OK h (path_join h d (exeName h))) ds)"
  by (induction ds) (auto simp: case_prod_beta)

lemma findInDirs_events:
  "e \<in> set (snd (findInDirs h ds)) \<Longrightarrow> \<exists>p. e = Access p (access_X_OK h p)"
  by (induction ds) (auto simp: case_prod_beta split: if_splits)

lemma findInDirs_Some:
  "fst (findInDirs h ds) = Some p \<Longrightarrow>
     access_X_OK h p \<and> Access p True \<in> set (snd (findInDirs h ds))"
  by (induction ds) (auto simp: case_prod_beta split: if_splits)

lemma firstExecutable_Some:
  "fst (firstExecutable h ps) = Some p \<Longrightarrow>
     access_X_OK h p \<and> Access p True \<in> set (snd (firstExecutable h ps))"
  by (induction ps) (auto simp: case_prod_beta split: if_splits)

lemma mdfindPandoc_Some:
  "fst (mdfindPandoc h) = Some p \<Longrightarrow>
     access_X_OK h p \<and> Access p True \<in> set (snd (mdfindPandoc h))"
  by (auto simp: mdfindPandoc_def case_prod_beta split: sum.splits if_splits
           dest: firstExecutable_Some)

lemma whichPandoc_Some:
  "fst (whichPandoc h) = Some p \<Longrightarrow>
     \<exists>stdout stderr. exec h (whichCommand h) (whichShell h) = Inr (stdout, stderr) \<and>
       trim stdout \<noteq> [] \<and> p = firstLine stdout"
  by (auto simp: whichPandoc_def split: sum.splits prod.splits if_splits)

lemma whichPandoc_events:
  "snd (whichPandoc h) = [Exec (whichCommand h) (whichShell h) None]"
  by (simp add: whichPandoc_def)

lemma searchPandoc_dirs:
  "fst (findInDirs h (fst (allPaths h))) = Some p \<Longrightarrow>
     searchPandoc h = (Some p, snd (allPaths h) @ snd (findInDirs h (fst (allPaths h))))"
  by (auto simp: searchPandoc_def split: prod.splits option.splits)

lemma searchPandoc_mdfind:
  "fst (findInDirs h (fst (allPaths h))) = None \<Longrightarrow> platform h = Darwin \<Longrightarrow>
   fst (mdfindPandoc h) = Some p \<Longrightarrow>
     searchPandoc h =
       (Some p, snd (allPaths h) @ snd (findInDirs h (fst (allPaths h))) @ snd (mdfindPandoc h))"
  by (auto simp: searchPandoc_def split: prod.splits option.splits)

lemma searchPandoc_which:
  "fst (findInDirs h (fst (allPaths h))) = None \<Longrightarrow>
   platform h = Darwin \<longrightarrow> fst (mdfindPandoc h) = None \<Longrightarrow>
     searchPandoc h =
       (fst (whichPandoc h),
        snd (allPaths h) @ snd (findInDirs h (fst (allPaths h))) @
        (if platform h = Darwin then snd (mdfindPandoc h) else []) @ snd (whichPandoc h))"
  by (auto simp: searchPandoc_def split: prod.splits option.splits)

lemma resolvePandoc_user:
  "snd (fst (userPath h hint)) \<Longrightarrow>
     resolvePandoc h hint = (Inr (fst (fst (userPath h hint))), snd (userPath h hint))"
  by (auto simp: resolvePandoc_def split: prod.splits)

lemma resolvePandoc_search:
  "\<not> snd (fst (userPath h hint)) \<Longrightarrow>
     resolvePandoc h hint =
       (case fst (searchPandoc h) of Some p \<Rightarrow> Inr p | None \<Rightarrow> Inl notFoundMessage,
        snd (userPath h hint) @ snd (searchPandoc h))"
  by (auto simp: resolvePandoc_def split: prod.splits option.splits)

lemma searchPandoc_Some:
  assumes "fst (searchPandoc h) = Some p"
  shows "(access_X_OK h p \<and> Access p True \<in> set (snd (searchPandoc h))) \<or>
         (fst (findInDirs h (fst (allPaths h))) = None \<and> fst (whichPandoc h) = Some p \<and>
          Exec (whichCommand h) (whichShell h) None \<in> set (snd (searchPandoc h)))"
proof (cases "fst (findInDirs h (fst (allPaths h)))")
  case (Some q)
  from searchPandoc_dirs [OF Some] assms have "q = p" by simp
  with Some findInDirs_Some [of h "fst (allPaths h)" p] searchPandoc_dirs [OF Some]
  show ?thesis by simp
next
  case None
  show ?thesis
  proof (cases "platform h = Darwin \<and> fst (mdfindPandoc h) \<noteq> None")
    case True
    then obtain q where q: "fst (mdfindPandoc h) = Some q" by auto
    from searchPandoc_mdfind [OF None _ q] True assms have "q = p" by simp
    with q True searchPandoc_mdfind [OF None _ q] mdfindPandoc_Some [of h p]
    show ?thesis by simp
  next
    case False
    then have "platform h = Darwin \<longrightarrow> fst (mdfindPandoc h) = None" by auto
    from searchPandoc_which [OF None this] assms None
    show ?thesis by (simp add: whichPandoc_events)
  qed
qed

lemma allPaths_events:
  "e \<in> set (snd (allPaths h)) \<Longrightarrow> e = Exec ''echo $PATH'' (Some ''/bin/zsh'') None"
  by (auto simp: allPaths_def darwinPaths_def Let_def case_prod_beta split: if_splits option.splits)

lemma echo_not_later:
  "''echo $PATH'' \<noteq> mdfindCommand" "''echo $PATH'' \<noteq> whichCommand h"
  by (simp_all add: mdfindCommand_def whichCommand_def)

section \<open>The export, case by case\<close>

lemma runPandoc_exec_event:
  "Exec cmd (execShell h) (Some (env h)) \<in> set (trace (runPandoc h cmd tmp out w))"
  by (auto simp: runPandoc_def unlink_def emit_def catchError_def Let_def
           split: sum.splits option.splits)

lemma exportFile_rejected:
  assumes "vault_read h (file_path file) = Inr content"
    and "writeFile_error h (tempFilePath h file) = None"
    and "fst (resolvePandoc h (pandocPath s)) = Inr exe"
    and "exec h (command h exe (tempFilePath h file) out (extraArgs s format)) (execShell h) = Inl m"
  shows "trace (exportFile h s file format out w) =
           trace w @ WriteFile (tempFilePath h file) True # snd (resolvePandoc h (pandocPath s)) @
             [Exec (command h exe (tempFilePath h file) out (extraArgs s format)) (execShell h)
                (Some (env h)),
              ConsoleError m, Notice (failedPrefix @ errorText m @ failedSuffix)]"
    and "fs_files (exportFile h s file format out w) = (fs_files w)(tempFilePath h file \<mapsto> content)"
  using assms
  by (simp_all add: exportFile_found runPandoc_rejected trace_catchError trace_emit trace_started
        fs_files_catchError fs_files_emit fs_files_started)

lemma exportFile_resolved:
  assumes "vault_read h (file_path file) = Inr content"
    and "writeFile_error h (tempFilePath h file) = None"
    and "fst (resolvePandoc h (pandocPath s)) = Inr exe"
    and "exec h (command h exe (tempFilePath h file) out (extraArgs s format)) (execShell h)
           = Inr (stdout, stderr)"
    and "unlink_error h (tempFilePath h file) = None"
  shows "trace (exportFile h s file format out w) =
           trace w @ WriteFile (tempFilePath h file) True # snd (resolvePandoc h (pandocPath s)) @
             Exec (command h exe (tempFilePath h file) out (extraArgs s format)) (execShell h)
               (Some (env h)) #
             (if stderr \<noteq> [] then [ConsoleWarning stderr] else []) @
             [Unlink (tempFilePath h file) True, Notice (succeededPrefix @ path_basename h out)]"
    and "fs_files (exportFile h s file format out w) = (fs_files w)(tempFilePath h file := None)"
proof -
  let ?tmp = "tempFilePath h file"
  let ?cmd = "command h exe ?tmp out (extraArgs s format)"
  let ?w = "started h s file content w"
  have run: "exportFile h s file format out w = runPandoc h ?cmd ?tmp out ?w"
    using assms(1-3) by (rule exportFile_found)
  have f: "fs_files ?w ?tmp \<noteq> None"
    by (simp add: fs_files_started)
  from runPandoc_resolved(1) [OF assms(4,5) f, of out]
  show "trace (exportFile h s file format out w) =
           trace w @ WriteFile ?tmp True # snd (resolvePandoc h (pandocPath s)) @
             Exec ?cmd (execShell h) (Some (env h)) #
             (if stderr \<noteq> [] then [ConsoleWarning stderr] else []) @
             [Unlink ?tmp True, Notice (succeededPrefix @ path_basename h out)]"
    by (simp add: run trace_started)
  from runPandoc_resolved(2) [OF assms(4,5) f, of out]
  show "fs_files (exportFile h s file format out w) = (fs_files w)(?tmp := None)"
    by (simp add: run fs_files_started)
qed

lemma exportFile_unlink_failed:
  assumes "vault_read h (file_path file) = Inr content"
    and "writeFile_error h (tempFilePath h file) = None"
    and "fst (resolvePandoc h (pandocPath s)) = Inr exe"
    and "exec h (command h exe (tempFilePath h file) out (extraArgs s format)) (execShell h)
           = Inr (stdout, stderr)"
    and "unlink_error h (tempFilePath h file) = Some e"
  shows "trace (exportFile h s file format out w) =
           trace w @ WriteFile (tempFilePath h file) True # snd (resolvePandoc h (pandocPath s)) @
             Exec (command h exe (tempFilePath h file) out (extraArgs s format)) (execShell h)
               (Some (env h)) #
             (if stderr \<noteq> [] then [ConsoleWarning stderr] else []) @
             [Unlink (tempFilePath h file) False, ConsoleError e,
              Notice (failedPrefix @ errorText e @ failedSuffix)]"
  using runPandoc_unlink_failed [OF assms(4,5)] assms(1-3)
  by (simp add: exportFile_found trace_started)

lemma exportFile_not_found_result:
  assumes "vault_read h (file_path file) = Inr content"
    and "writeFile_error h (tempFilePath h file) = None"
    and "fst (resolvePandoc h (pandocPath s)) = Inl m"
  shows "trace (exportFile h s file format out w) =
           trace w @ WriteFile (tempFilePath h file) True # snd (resolvePandoc h (pandocPath s)) @
             [ConsoleError m, Notice (failedPrefix @ errorText m @ failedSuffix)]"
    and "fs_files (exportFile h s file format out w) = (fs_files w)(tempFilePath h file \<mapsto> content)"
  using assms
  by (simp_all add: exportFile_not_found trace_catchError trace_started fs_files_catchError
        fs_files_started)

section \<open>The search on the example hosts\<close>

lemma resolve_usr_bin:
  assumes "platform h = Linux"
    and "map_of (env h) ''PATH'' = Some ''/usr/local/sbin:/usr/bin''"
    and "path_join h = (\<lambda>a b. a @ ''/'' @ b)"
    and "access_X_OK h = (\<lambda>p. p = ''/usr/bin/pandoc'')"
  shows "resolvePandoc h ''pandoc'' =
           (Inr ''/usr/bin/pandoc'',
            [Access ''/usr/local/sbin/pandoc'' False, Access ''/usr/bin/pandoc'' True])"
  using assms
  by (simp add: resolvePandoc_def userPath_def searchPandoc_def allPaths_def pathDirs_def
        newSet_def commonPaths_def exeName_def)

lemma linux_resolve:
  "resolvePandoc linuxHost ''pandoc'' =
     (Inr ''/usr/bin/pandoc'',
      [Access ''/usr/local/sbin/pandoc'' False, Access ''/usr/bin/pandoc'' True])"
  "resolvePandoc warningHost ''pandoc'' =
     (Inr ''/usr/bin/pandoc'',
      [Access ''/usr/local/sbin/pandoc'' False, Access ''/usr/bin/pandoc'' True])"
  "resolvePandoc engineHost ''pandoc'' =
     (Inr ''/usr/bin/pandoc'',
      [Access ''/usr/local/sbin/pandoc'' False, Access ''/usr/bin/pandoc'' True])"
  "resolvePandoc pdflatexHost ''pandoc'' =
     (Inr ''/usr/bin/pandoc'',
      [Access ''/usr/local/sbin/pandoc'' False, Access ''/usr/bin/pandoc'' True])"
  "resolvePandoc unlinkFailHost ''pandoc'' =
     (Inr ''/usr/bin/pandoc'',
      [Access ''/usr/local/sbin/pandoc'' False, Access ''/usr/bin/pandoc'' True])"
  by (rule resolve_usr_bin;
      simp add: linuxHost_def warningHost_def engineHost_def pdflatexHost_def unlinkFailHost_def)+

lemma note_temp:
  "tempFilePath linuxHost noteFile = ''/tmp/note-temp.md''"
  "tempFilePath warningHost noteFile = ''/tmp/note-temp.md''"
  "tempFilePath engineHost noteFile = ''/tmp/note-temp.md''"
  "tempFilePath pdflatexHost noteFile = ''/tmp/note-temp.md''"
  "tempFilePath unlinkFailHost noteFile = ''/tmp/note-temp.md''"
  "tempFilePath twoPandocs noteFile = ''/tmp/note-temp.md''"
  "tempFilePath macHost noteFile = ''/tmp/note-temp.md''"
  by (simp_all add: tempFilePath_def noteFile_def linuxHost_def warningHost_def engineHost_def
        pdflatexHost_def unlinkFailHost_def twoPandocs_def macHost_def)

lemma note_read:
  "vault_read linuxHost (file_path noteFile) = Inr ''# Title''"
  "vault_read warningHost (file_path noteFile) = Inr ''# Title''"
  "vault_read engineHost (file_path noteFile) = Inr ''# Title''"
  "vault_read pdflatexHost (file_path noteFile) = Inr ''# Title''"
  "vault_read unlinkFailHost (file_path noteFile) = Inr ''# Title''"
  "vault_read twoPandocs (file_path noteFile) = Inr ''# Title''"
  "vault_read macHost (file_path noteFile) = Inr ''# Title''"
  by (simp_all add: linuxHost_def warningHost_def engineHost_def
        pdflatexHost_def unlinkFailHost_def twoPandocs_def macHost_def)

lemma note_write:
  "writeFile_error linuxHost p = None"
  "writeFile_error warningHost p = None"
  "writeFile_error engineHost p = None"
  "writeFile_error pdflatexHost p = None"
  "writeFile_error unlinkFailHost p = None"
  "writeFile_error twoPandocs p = None"
  "writeFile_error macHost p = None"
  by (simp_all add: linuxHost_def warningHost_def engineHost_def
        pdflatexHost_def unlinkFailHost_def twoPandocs_def macHost_def)

lemma default_path: "pandocPath DEFAULT_SETTINGS = ''pandoc''"
  by (simp add: DEFAULT_SETTINGS_def)

lemma which_resolve:
  "fst (resolvePandoc whichHost ''pandoc'') = Inr ''/home/u/.cabal/bin/pandoc''"
  "Access ''/home/u/.cabal/bin/pandoc'' True \<notin> set (snd (resolvePandoc whichHost ''pandoc''))"
  by (simp_all add: resolvePandoc_def userPath_def searchPandoc_def allPaths_def pathDirs_def
        newSet_def commonPaths_def exeName_def whichPandoc_def whichCommand_def whichShell_def
        firstLine_def trim_def isSpace_def whichHost_def linuxHost_def)

lemma mac_resolve:
  "\<not> snd (fst (userPath macHost ''/opt/tool/conv''))"
  "\<not> snd (fst (userPath macHost ''pandoc''))"
  "fst (searchPandoc macHost) = None"
  by (simp_all add: userPath_def accessOrExe_def searchPandoc_def allPaths_def pathDirs_def
        darwinPaths_def shellPathDirs_def brewM1Paths_def pushIfAbsent_def
        newSet_def commonPaths_def exeName_def whichPandoc_def whichCommand_def whichShell_def
        mdfindPandoc_def macHost_def linuxHost_def)

lemma two_resolve:
  "resolvePandoc twoPandocs ''/opt/my tools/pandoc'' =
     (Inr ''/opt/my tools/pandoc'', [Access ''/opt/my tools/pandoc'' True])"
  by (simp add: resolvePandoc_def userPath_def accessOrExe_def twoPandocs_def linuxHost_def)

lemma linux_candidates:
  "fst (allPaths linuxHost) =
     [''/usr/local/sbin'', ''/usr/bin'',
      ''C:'' @ [CHR 0x5C] @ ''Program Files'' @ [CHR 0x5C] @ ''Pandoc'',
      ''C:'' @ [CHR 0x5C] @ ''Pandoc'', ''/usr/local/bin'', ''/opt/homebrew/bin'',
      ''/opt/local/bin'', ''/usr/local/Homebrew/bin'', ''/opt/bin'']"
  "fst (allPaths twoPandocs) = fst (allPaths linuxHost)"
  by (simp_all add: allPaths_def pathDirs_def newSet_def commonPaths_def linuxHost_def
        twoPandocs_def)

section \<open>Which paths the search returns\<close>

text \<open>
  C1, as amended. A path that the search returns is of one of three kinds: it passed the
  executability check itself, and the check is in the trace; or, on Windows, it is a
  configured path without the suffix \<^verbatim>\<open>.exe\<close> whose own check failed and whose variant
  with \<^verbatim>\<open>.exe\<close> appended passed; or it is the first line of what \<^verbatim>\<open>which pandoc\<close>
  (\<^verbatim>\<open>where pandoc\<close> on Windows) printed, which lines 329 to 333 take without a check.
  The specification says that no unchecked path is returned; the counterexample below is
  a machine on which \<^verbatim>\<open>which\<close> prints a path that is not executable.
\<close>

theorem resolved_path_checked_or_trusted:
  assumes "fst (resolvePandoc h hint) = Inr p"
  shows "(access_X_OK h p \<and> Access p True \<in> set (snd (resolvePandoc h hint))) \<or>
         (platform h = Win32 \<and> \<not> endsWith p ''.exe'' \<and> access_X_OK h (p @ ''.exe'') \<and>
          Access p False \<in> set (snd (resolvePandoc h hint)) \<and>
          Access (p @ ''.exe'') True \<in> set (snd (resolvePandoc h hint))) \<or>
         (\<exists>stdout stderr.
            exec h (whichCommand h) (whichShell h) = Inr (stdout, stderr) \<and>
            p = firstLine stdout \<and>
            Exec (whichCommand h) (whichShell h) None \<in> set (snd (resolvePandoc h hint)))"
proof (cases "snd (fst (userPath h hint))")
  case True
  with assms have p: "p = fst (fst (userPath h hint))"
    and ev: "snd (resolvePandoc h hint) = snd (userPath h hint)"
    by (simp_all add: resolvePandoc_user)
  from userPath_found [OF True] p
  have "fst (accessOrExe h p)" and "snd (userPath h hint) = snd (accessOrExe h p)"
    by simp_all
  with accessOrExe_True [of h p] ev show ?thesis by auto
next
  case False
  with assms have s: "fst (searchPandoc h) = Some p"
    and ev: "snd (resolvePandoc h hint) = snd (userPath h hint) @ snd (searchPandoc h)"
    by (simp_all add: resolvePandoc_search split: option.splits)
  from searchPandoc_Some [OF s] show ?thesis
  proof
    assume "access_X_OK h p \<and> Access p True \<in> set (snd (searchPandoc h))"
    with ev show ?thesis by simp
  next
    assume w: "fst (findInDirs h (fst (allPaths h))) = None \<and> fst (whichPandoc h) = Some p \<and>
          Exec (whichCommand h) (whichShell h) None \<in> set (snd (searchPandoc h))"
    then obtain stdout stderr where
      "exec h (whichCommand h) (whichShell h) = Inr (stdout, stderr)" "p = firstLine stdout"
      using whichPandoc_Some by blast
    with w ev show ?thesis by auto
  qed
qed

theorem resolved_path_checked_or_trusted_witness:
  "fst (resolvePandoc linuxHost ''pandoc'') = Inr ''/usr/bin/pandoc'' \<and>
   access_X_OK linuxHost ''/usr/bin/pandoc'' \<and>
   Access ''/usr/bin/pandoc'' True \<in> set (snd (resolvePandoc linuxHost ''pandoc''))"
proof -
  have r: "fst (resolvePandoc linuxHost ''pandoc'') = Inr ''/usr/bin/pandoc''"
    by (simp add: linux_resolve)
  have nw: "platform linuxHost \<noteq> Win32"
    by (simp add: linuxHost_def)
  have ne: "exec linuxHost (whichCommand linuxHost) (whichShell linuxHost) = Inl ''Command failed''"
    by (simp add: linuxHost_def)
  from resolved_path_checked_or_trusted [OF r] nw ne
  have "access_X_OK linuxHost ''/usr/bin/pandoc'' \<and>
        Access ''/usr/bin/pandoc'' True \<in> set (snd (resolvePandoc linuxHost ''pandoc''))"
    by auto
  with r show ?thesis by simp
qed

theorem which_output_unchecked_counterexample:
  "fst (resolvePandoc whichHost ''pandoc'') = Inr ''/home/u/.cabal/bin/pandoc'' \<and>
   \<not> access_X_OK whichHost ''/home/u/.cabal/bin/pandoc'' \<and>
   Access ''/home/u/.cabal/bin/pandoc'' True \<notin> set (snd (resolvePandoc whichHost ''pandoc''))"
  by (simp add: which_resolve) (simp add: whichHost_def)

section \<open>The temporary file\<close>

text \<open>
  C2. The specification wants the temporary file removed after pandoc has finished, on
  success and on every failure, and a failed removal not to replace the result. In
  \<^verbatim>\<open>exportFile\<close> the only \<^verbatim>\<open>unlink\<close> is line 393, inside the \<^verbatim>\<open>try\<close> block and after the
  command. Evaluated on three machines: pandoc exits with an error, and the trace has
  no \<^verbatim>\<open>unlink\<close> and the file is still there; pandoc is not found, and the file is still
  there; pandoc succeeds and the removal fails, and the notice shown is the one of a
  failed export.
\<close>

theorem temp_file_left_after_failure:
  "trace (exportFile linuxHost DEFAULT_SETTINGS noteFile ''pdf'' ''/vault/note.pdf'' emptyWorld) =
     [WriteFile ''/tmp/note-temp.md'' True,
      Access ''/usr/local/sbin/pandoc'' False, Access ''/usr/bin/pandoc'' True,
      Exec (command linuxHost ''/usr/bin/pandoc'' ''/tmp/note-temp.md'' ''/vault/note.pdf'' [])
        (Some ''/bin/bash'') (Some (env linuxHost)),
      ConsoleError ''Command failed'',
      Notice (failedPrefix @ ''Command failed'' @ failedSuffix)] \<and>
   fs_files (exportFile linuxHost DEFAULT_SETTINGS noteFile ''pdf'' ''/vault/note.pdf'' emptyWorld)
     ''/tmp/note-temp.md'' = Some ''# Title'' \<and>
   fs_files (exportFile macHost DEFAULT_SETTINGS noteFile ''pdf'' ''/vault/note.pdf'' emptyWorld)
     ''/tmp/note-temp.md'' = Some ''# Title'' \<and>
   trace (exportFile unlinkFailHost DEFAULT_SETTINGS noteFile ''pdf'' ''/vault/note.pdf'' emptyWorld) =
     [WriteFile ''/tmp/note-temp.md'' True,
      Access ''/usr/local/sbin/pandoc'' False, Access ''/usr/bin/pandoc'' True,
      Exec (command unlinkFailHost ''/usr/bin/pandoc'' ''/tmp/note-temp.md'' ''/vault/note.pdf'' [])
        (Some ''/bin/bash'') (Some (env unlinkFailHost)),
      Unlink ''/tmp/note-temp.md'' False,
      ConsoleError ''EPERM: operation not permitted'',
      Notice (failedPrefix @ ''EPERM: operation not permitted'' @ failedSuffix)]"
proof (intro conjI)
  have args: "extraArgs DEFAULT_SETTINGS ''pdf'' = []"
    by (simp add: extraArgs_def DEFAULT_SETTINGS_def)
  have r: "fst (resolvePandoc linuxHost (pandocPath DEFAULT_SETTINGS)) = Inr ''/usr/bin/pandoc''"
    by (simp add: default_path linux_resolve)
  have x: "exec linuxHost
        (command linuxHost ''/usr/bin/pandoc'' (tempFilePath linuxHost noteFile) ''/vault/note.pdf''
           (extraArgs DEFAULT_SETTINGS ''pdf'')) (execShell linuxHost) = Inl ''Command failed''"
    by (simp add: linuxHost_def)
  have t: "errorText ''Command failed'' = ''Command failed''"
    by (simp add: errorText_def classify_def notFoundMarker_def)
  have sh: "execShell linuxHost = Some ''/bin/bash''" "execShell unlinkFailHost = Some ''/bin/bash''"
    by (simp_all add: execShell_def linuxHost_def unlinkFailHost_def)
  from exportFile_rejected(1) [OF note_read(1) note_write(1) r x, of emptyWorld]
  show "trace (exportFile linuxHost DEFAULT_SETTINGS noteFile ''pdf'' ''/vault/note.pdf'' emptyWorld) =
     [WriteFile ''/tmp/note-temp.md'' True,
      Access ''/usr/local/sbin/pandoc'' False, Access ''/usr/bin/pandoc'' True,
      Exec (command linuxHost ''/usr/bin/pandoc'' ''/tmp/note-temp.md'' ''/vault/note.pdf'' [])
        (Some ''/bin/bash'') (Some (env linuxHost)),
      ConsoleError ''Command failed'',
      Notice (failedPrefix @ ''Command failed'' @ failedSuffix)]"
    by (simp add: note_temp args default_path linux_resolve t sh emptyWorld_def)
  from exportFile_rejected(2) [OF note_read(1) note_write(1) r x, of emptyWorld]
  show "fs_files (exportFile linuxHost DEFAULT_SETTINGS noteFile ''pdf'' ''/vault/note.pdf'' emptyWorld)
     ''/tmp/note-temp.md'' = Some ''# Title''"
    by (simp add: note_temp)
  have m: "fst (resolvePandoc macHost (pandocPath DEFAULT_SETTINGS)) = Inl notFoundMessage"
    by (simp add: default_path resolvePandoc_search mac_resolve)
  from exportFile_not_found_result(2) [OF note_read(7) note_write(7) m, of "''pdf''" "''/vault/note.pdf''" emptyWorld]
  show "fs_files (exportFile macHost DEFAULT_SETTINGS noteFile ''pdf'' ''/vault/note.pdf'' emptyWorld)
     ''/tmp/note-temp.md'' = Some ''# Title''"
    by (simp add: note_temp)
  have r': "fst (resolvePandoc unlinkFailHost (pandocPath DEFAULT_SETTINGS)) = Inr ''/usr/bin/pandoc''"
    by (simp add: default_path linux_resolve)
  have x': "exec unlinkFailHost
        (command unlinkFailHost ''/usr/bin/pandoc'' (tempFilePath unlinkFailHost noteFile)
           ''/vault/note.pdf'' (extraArgs DEFAULT_SETTINGS ''pdf'')) (execShell unlinkFailHost)
        = Inr ([], [])"
    by (simp add: unlinkFailHost_def)
  have u: "unlink_error unlinkFailHost (tempFilePath unlinkFailHost noteFile)
             = Some ''EPERM: operation not permitted''"
    by (simp add: unlinkFailHost_def)
  have t': "errorText ''EPERM: operation not permitted'' = ''EPERM: operation not permitted''"
    by (simp add: errorText_def classify_def notFoundMarker_def)
  from exportFile_unlink_failed [OF note_read(5) note_write(5) r' x' u, of emptyWorld]
  show "trace (exportFile unlinkFailHost DEFAULT_SETTINGS noteFile ''pdf'' ''/vault/note.pdf'' emptyWorld) =
     [WriteFile ''/tmp/note-temp.md'' True,
      Access ''/usr/local/sbin/pandoc'' False, Access ''/usr/bin/pandoc'' True,
      Exec (command unlinkFailHost ''/usr/bin/pandoc'' ''/tmp/note-temp.md'' ''/vault/note.pdf'' [])
        (Some ''/bin/bash'') (Some (env unlinkFailHost)),
      Unlink ''/tmp/note-temp.md'' False,
      ConsoleError ''EPERM: operation not permitted'',
      Notice (failedPrefix @ ''EPERM: operation not permitted'' @ failedSuffix)]"
    by (simp add: note_temp args default_path linux_resolve t' sh emptyWorld_def)
qed

section \<open>A configured path that is not executable\<close>

text \<open>
  C3, as amended. An absolute hint that fails the executability check (on Windows also
  with \<^verbatim>\<open>.exe\<close> appended) is not accepted, and the search goes on: the result is what the
  directories, \<^verbatim>\<open>mdfind\<close> and \<^verbatim>\<open>which\<close> give, the same as for the default hint
  \<^verbatim>\<open>pandoc\<close>, and the error of lines 343 to 350 only when they find nothing. The hint
  itself comes back only if \<^verbatim>\<open>which\<close> or \<^verbatim>\<open>where\<close> prints it. The specification says
  that the call fails; the counterexample is a machine with pandoc in \<^verbatim>\<open>/usr/bin\<close>.
\<close>

theorem rejected_hint_continues_search:
  assumes "path_isAbsolute h hint" and "\<not> fst (accessOrExe h hint)"
  shows "fst (resolvePandoc h hint) =
           (case fst (searchPandoc h) of Some p \<Rightarrow> Inr p | None \<Rightarrow> Inl notFoundMessage) \<and>
         fst (resolvePandoc h hint) = fst (resolvePandoc h ''pandoc'') \<and>
         (fst (resolvePandoc h hint) = Inr hint \<longrightarrow> fst (whichPandoc h) = Some hint)"
proof (intro conjI impI)
  from assms have nf: "\<not> snd (fst (userPath h hint))" by (rule userPath_rejected)
  then show r: "fst (resolvePandoc h hint) =
           (case fst (searchPandoc h) of Some p \<Rightarrow> Inr p | None \<Rightarrow> Inl notFoundMessage)"
    by (simp add: resolvePandoc_search)
  have "fst (resolvePandoc h ''pandoc'') =
           (case fst (searchPandoc h) of Some p \<Rightarrow> Inr p | None \<Rightarrow> Inl notFoundMessage)"
    using userPath_default [of h] by (simp add: resolvePandoc_search)
  with r show "fst (resolvePandoc h hint) = fst (resolvePandoc h ''pandoc'')" by simp
  assume "fst (resolvePandoc h hint) = Inr hint"
  with r have s: "fst (searchPandoc h) = Some hint" by (simp split: option.splits)
  from assms(2) have "\<not> access_X_OK h hint" by (simp add: accessOrExe_False)
  with searchPandoc_Some [OF s] show "fst (whichPandoc h) = Some hint" by blast
qed

theorem rejected_hint_continues_search_witness:
  "fst (resolvePandoc linuxHost ''/opt/tool/conv'') = Inr ''/usr/bin/pandoc'' \<and>
   fst (resolvePandoc macHost ''/opt/tool/conv'') = Inl notFoundMessage"
proof -
  have a: "path_isAbsolute linuxHost ''/opt/tool/conv''" "path_isAbsolute macHost ''/opt/tool/conv''"
    by (simp_all add: linuxHost_def macHost_def)
  have b: "\<not> fst (accessOrExe linuxHost ''/opt/tool/conv'')"
    "\<not> fst (accessOrExe macHost ''/opt/tool/conv'')"
    by (simp_all add: accessOrExe_def linuxHost_def macHost_def)
  from rejected_hint_continues_search [OF a(1) b(1)]
  have "fst (resolvePandoc linuxHost ''/opt/tool/conv'') = fst (resolvePandoc linuxHost ''pandoc'')"
    by blast
  then have 1: "fst (resolvePandoc linuxHost ''/opt/tool/conv'') = Inr ''/usr/bin/pandoc''"
    by (simp add: linux_resolve)
  from rejected_hint_continues_search [OF a(2) b(2)]
  have "fst (resolvePandoc macHost ''/opt/tool/conv'') =
          (case fst (searchPandoc macHost) of Some p \<Rightarrow> Inr p | None \<Rightarrow> Inl notFoundMessage)"
    by blast
  then have 2: "fst (resolvePandoc macHost ''/opt/tool/conv'') = Inl notFoundMessage"
    by (simp add: mac_resolve)
  from 1 2 show ?thesis by blast
qed

theorem rejected_hint_falls_through_counterexample:
  "path_isAbsolute linuxHost ''/opt/tool/conv'' \<and>
   \<not> access_X_OK linuxHost ''/opt/tool/conv'' \<and>
   fst (resolvePandoc linuxHost ''/opt/tool/conv'') = Inr ''/usr/bin/pandoc'' \<and>
   fst (resolvePandoc linuxHost ''/opt/tool/conv'') \<noteq> Inl notFoundMessage"
  by (simp add: resolvePandoc_def userPath_def accessOrExe_def searchPandoc_def allPaths_def
        pathDirs_def newSet_def commonPaths_def exeName_def linuxHost_def)

section \<open>The first directory with pandoc\<close>

text \<open>
  C4, as amended. When the configured path was not accepted in step 1 (it is empty, or
  the default \<^verbatim>\<open>pandoc\<close>, or it failed its check) and some entry of \<^verbatim>\<open>allPaths\<close> that is
  not empty holds an executable \<^verbatim>\<open>pandoc\<close> (\<^verbatim>\<open>pandoc.exe\<close> on Windows), the result is the
  first such path in the order of the list, and no command of the trace is the
  \<^verbatim>\<open>mdfind\<close> pipeline or \<^verbatim>\<open>which\<close>/\<^verbatim>\<open>where\<close>. As the specification states it, without
  the condition on step 1, the property fails: a configured path that passes its check
  is returned, whatever the directories hold.
\<close>

theorem first_candidate_wins:
  assumes "\<not> snd (fst (userPath h hint))"
    and "d \<in> set (fst (allPaths h))" and "d \<noteq> []"
    and "access_X_OK h (path_join h d (exeName h))"
  shows "\<exists>d'. find (\<lambda>d. d \<noteq> [] \<and> access_X_OK h (path_join h d (exeName h))) (fst (allPaths h))
               = Some d' \<and>
              fst (resolvePandoc h hint) = Inr (path_join h d' (exeName h)) \<and>
              (\<forall>c sh e. Exec c sh e \<in> set (snd (resolvePandoc h hint)) \<longrightarrow>
                 c \<noteq> mdfindCommand \<and> c \<noteq> whichCommand h)"
proof -
  let ?P = "\<lambda>d. d \<noteq> [] \<and> access_X_OK h (path_join h d (exeName h))"
  from assms(2-4) have "find ?P (fst (allPaths h)) \<noteq> None"
    by (auto simp: find_None_iff)
  then obtain d' where f: "find ?P (fst (allPaths h)) = Some d'" by auto
  then have dirs: "fst (findInDirs h (fst (allPaths h))) = Some (path_join h d' (exeName h))"
    by (simp add: findInDirs_find)
  from searchPandoc_dirs [OF dirs] assms(1) have r: "resolvePandoc h hint =
      (Inr (path_join h d' (exeName h)),
       snd (userPath h hint) @ snd (allPaths h) @ snd (findInDirs h (fst (allPaths h))))"
    by (simp add: resolvePandoc_search)
  have "c \<noteq> mdfindCommand \<and> c \<noteq> whichCommand h"
    if "Exec c sh e \<in> set (snd (resolvePandoc h hint))" for c sh e
  proof -
    from that r consider "Exec c sh e \<in> set (snd (userPath h hint))"
      | "Exec c sh e \<in> set (snd (allPaths h))"
      | "Exec c sh e \<in> set (snd (findInDirs h (fst (allPaths h))))"
      by auto
    then show ?thesis
    proof cases
      case 1
      then show ?thesis by (auto dest: userPath_events)
    next
      case 2
      then have "c = ''echo $PATH''" by (auto dest: allPaths_events)
      then show ?thesis using echo_not_later by simp
    next
      case 3
      then show ?thesis by (auto dest: findInDirs_events)
    qed
  qed
  with f r show ?thesis by auto
qed

theorem first_candidate_wins_witness:
  "find (\<lambda>d. d \<noteq> [] \<and> access_X_OK linuxHost (path_join linuxHost d (exeName linuxHost)))
     (fst (allPaths linuxHost)) = Some ''/usr/bin'' \<and>
   fst (resolvePandoc linuxHost ''pandoc'') = Inr ''/usr/bin/pandoc'' \<and>
   Exec mdfindCommand (Some ''/bin/zsh'') None \<notin> set (snd (resolvePandoc linuxHost ''pandoc'')) \<and>
   Exec (whichCommand linuxHost) (whichShell linuxHost) None
     \<notin> set (snd (resolvePandoc linuxHost ''pandoc''))"
proof -
  have a: "\<not> snd (fst (userPath linuxHost ''pandoc''))"
    by (rule userPath_default)
  have b: "''/usr/bin'' \<in> set (fst (allPaths linuxHost))"
    by (simp add: linux_candidates)
  have c: "''/usr/bin'' \<noteq> []"
    by simp
  have d: "access_X_OK linuxHost (path_join linuxHost ''/usr/bin'' (exeName linuxHost))"
    by (simp add: exeName_def linuxHost_def)
  have f: "find (\<lambda>d. d \<noteq> [] \<and> access_X_OK linuxHost (path_join linuxHost d (exeName linuxHost)))
     (fst (allPaths linuxHost)) = Some ''/usr/bin''"
    by (simp add: linux_candidates) (simp add: exeName_def linuxHost_def)
  from first_candidate_wins [OF a b c d] f
  have "fst (resolvePandoc linuxHost ''pandoc'') =
          Inr (path_join linuxHost ''/usr/bin'' (exeName linuxHost)) \<and>
        (\<forall>c sh e. Exec c sh e \<in> set (snd (resolvePandoc linuxHost ''pandoc'')) \<longrightarrow>
           c \<noteq> mdfindCommand \<and> c \<noteq> whichCommand linuxHost)"
    by auto
  moreover have "path_join linuxHost ''/usr/bin'' (exeName linuxHost) = ''/usr/bin/pandoc''"
    by (simp add: exeName_def linuxHost_def)
  ultimately show ?thesis using f by auto
qed

theorem configured_path_first_counterexample:
  "''/usr/bin'' \<in> set (fst (allPaths twoPandocs)) \<and>
   access_X_OK twoPandocs (path_join twoPandocs ''/usr/bin'' (exeName twoPandocs)) \<and>
   find (\<lambda>d. d \<noteq> [] \<and> access_X_OK twoPandocs (path_join twoPandocs d (exeName twoPandocs)))
     (fst (allPaths twoPandocs)) = Some ''/usr/bin'' \<and>
   fst (resolvePandoc twoPandocs ''/opt/my tools/pandoc'') = Inr ''/opt/my tools/pandoc'' \<and>
   fst (resolvePandoc twoPandocs ''/opt/my tools/pandoc'') \<noteq>
     Inr (path_join twoPandocs ''/usr/bin'' (exeName twoPandocs))"
  by (simp add: two_resolve linux_candidates) (simp add: exeName_def twoPandocs_def linuxHost_def)

section \<open>The PDF engine\<close>

text \<open>
  C5. For the format pdf and a PDF engine other than \<^verbatim>\<open>auto\<close>, the extra arguments are
  \<^verbatim>\<open>--pdf-engine=<engine>\<close>, a space and the user's arguments: the flag is in them, in
  front, and it is in the command line built from them. For the engine \<^verbatim>\<open>auto\<close> the
  extra arguments are the user's arguments, so they hold a \<^verbatim>\<open>--pdf-engine\<close> flag exactly
  when the user wrote one.
\<close>

theorem pdf_engine_argument:
  "(format = ''pdf'' \<and> pdfEngine s \<noteq> ''auto'' \<longrightarrow>
      extraArgs s format = (''--pdf-engine='' @ pdfEngine s) @ '' '' @ customArguments s \<and>
      startsWith (extraArgs s format) (''--pdf-engine='' @ pdfEngine s) \<and>
      includesStr (extraArgs s format) (''--pdf-engine='' @ pdfEngine s) \<and>
      includesStr (command h exe tmp out (extraArgs s format)) (''--pdf-engine='' @ pdfEngine s)) \<and>
   (pdfEngine s = ''auto'' \<longrightarrow>
      extraArgs s format = customArguments s \<and>
      (includesStr (extraArgs s format) ''--pdf-engine'' \<longleftrightarrow>
       includesStr (customArguments s) ''--pdf-engine''))"
proof (intro conjI impI)
  assume a: "format = ''pdf'' \<and> pdfEngine s \<noteq> ''auto''"
  then show e: "extraArgs s format = (''--pdf-engine='' @ pdfEngine s) @ '' '' @ customArguments s"
    by (simp add: extraArgs_def)
  then show "startsWith (extraArgs s format) (''--pdf-engine='' @ pdfEngine s)"
    unfolding startsWith_iff by blast
  have "includesStr ([] @ (''--pdf-engine='' @ pdfEngine s) @ ('' '' @ customArguments s))
          (''--pdf-engine='' @ pdfEngine s)"
    by (rule includesStr_middle)
  with e show i: "includesStr (extraArgs s format) (''--pdf-engine='' @ pdfEngine s)"
    by simp
  then show "includesStr (command h exe tmp out (extraArgs s format))
               (''--pdf-engine='' @ pdfEngine s)"
    by (rule command_includes_args)
next
  assume "pdfEngine s = ''auto''"
  then show e: "extraArgs s format = customArguments s"
    by (simp add: extraArgs_def)
  then show "includesStr (extraArgs s format) ''--pdf-engine'' \<longleftrightarrow>
             includesStr (customArguments s) ''--pdf-engine''"
    by simp
qed

theorem pdf_engine_argument_witness:
  "extraArgs (DEFAULT_SETTINGS\<lparr>pdfEngine := ''xelatex'', customArguments := ''--toc''\<rparr>) ''pdf''
     = ''--pdf-engine=xelatex --toc'' \<and>
   includesStr
     (command linuxHost ''/usr/bin/pandoc'' ''/tmp/note-temp.md'' ''/vault/note.pdf''
        (extraArgs (DEFAULT_SETTINGS\<lparr>pdfEngine := ''xelatex'', customArguments := ''--toc''\<rparr>) ''pdf''))
     ''--pdf-engine=xelatex'' \<and>
   extraArgs DEFAULT_SETTINGS ''pdf'' = [] \<and>
   \<not> includesStr (extraArgs DEFAULT_SETTINGS ''pdf'') ''--pdf-engine''"
proof -
  let ?s = "DEFAULT_SETTINGS\<lparr>pdfEngine := ''xelatex'', customArguments := ''--toc''\<rparr>"
  have p: "''pdf'' = ''pdf'' \<and> pdfEngine ?s \<noteq> ''auto''"
    by (simp add: DEFAULT_SETTINGS_def)
  have q: "pdfEngine DEFAULT_SETTINGS = ''auto''"
    by (simp add: DEFAULT_SETTINGS_def)
  have e1: "''--pdf-engine='' @ pdfEngine ?s = ''--pdf-engine=xelatex''"
    by simp
  have e2: "''--pdf-engine=xelatex'' @ '' '' @ customArguments ?s = ''--pdf-engine=xelatex --toc''"
    by simp
  have e3: "customArguments DEFAULT_SETTINGS = []"
    by (simp add: DEFAULT_SETTINGS_def)
  have n: "\<not> includesStr [] ''--pdf-engine''"
    by simp
  have "extraArgs ?s ''pdf'' = (''--pdf-engine='' @ pdfEngine ?s) @ '' '' @ customArguments ?s \<and>
        includesStr
          (command linuxHost ''/usr/bin/pandoc'' ''/tmp/note-temp.md'' ''/vault/note.pdf''
             (extraArgs ?s ''pdf'')) (''--pdf-engine='' @ pdfEngine ?s)"
    using pdf_engine_argument [of "''pdf''" ?s linuxHost "''/usr/bin/pandoc''"
      "''/tmp/note-temp.md''" "''/vault/note.pdf''"] p by blast
  then have 1: "extraArgs ?s ''pdf'' = ''--pdf-engine=xelatex --toc'' \<and>
        includesStr
          (command linuxHost ''/usr/bin/pandoc'' ''/tmp/note-temp.md'' ''/vault/note.pdf''
             (extraArgs ?s ''pdf'')) ''--pdf-engine=xelatex''"
    unfolding e1 e2 .
  have "extraArgs DEFAULT_SETTINGS ''pdf'' = customArguments DEFAULT_SETTINGS \<and>
        (includesStr (extraArgs DEFAULT_SETTINGS ''pdf'') ''--pdf-engine'' \<longleftrightarrow>
         includesStr (customArguments DEFAULT_SETTINGS) ''--pdf-engine'')"
    using pdf_engine_argument [of "''pdf''" DEFAULT_SETTINGS] q by blast
  then have 2: "extraArgs DEFAULT_SETTINGS ''pdf'' = [] \<and>
        \<not> includesStr (extraArgs DEFAULT_SETTINGS ''pdf'') ''--pdf-engine''"
    unfolding e3 using n by blast
  from 1 2 show ?thesis by blast
qed

section \<open>How an export ends\<close>

text \<open>
  C6, as amended. Once the file is read, the temporary file written and pandoc found:
  if the command exits with status zero and the temporary file can be removed, the
  export ends with the notice of success, after a warning on the console when the
  standard error is not empty; if the command fails with a message, the export ends with
  the notice of failure, whose text is chosen by the first of these that holds: the
  message contains \<^verbatim>\<open>command not found\<close>, \<^verbatim>\<open>not recognized\<close> or the opening words of
  the plugin's own error (tool not found); it contains \<^verbatim>\<open>pdflatex not found\<close>,
  \<^verbatim>\<open>xelatex\<close>, \<^verbatim>\<open>wkhtmltopdf\<close> or \<^verbatim>\<open>weasyprint\<close> (engine missing); neither (other
  failure). The specification lists \<^verbatim>\<open>pdflatex\<close> itself among the engine indicators; the
  counterexample is a message that has \<^verbatim>\<open>pdflatex\<close> in it and not \<^verbatim>\<open>pdflatex not found\<close>.
\<close>

theorem exportFile_outcome:
  assumes "vault_read h (file_path file) = Inr content"
    and "writeFile_error h (tempFilePath h file) = None"
    and "fst (resolvePandoc h (pandocPath s)) = Inr exe"
  shows
    "(exec h (command h exe (tempFilePath h file) out (extraArgs s format)) (execShell h)
        = Inr (stdout, stderr) \<and> unlink_error h (tempFilePath h file) = None \<longrightarrow>
      trace (exportFile h s file format out w) =
        trace w @ WriteFile (tempFilePath h file) True # snd (resolvePandoc h (pandocPath s)) @
          Exec (command h exe (tempFilePath h file) out (extraArgs s format)) (execShell h)
            (Some (env h)) #
          (if stderr \<noteq> [] then [ConsoleWarning stderr] else []) @
          [Unlink (tempFilePath h file) True, Notice (succeededPrefix @ path_basename h out)]) \<and>
     (exec h (command h exe (tempFilePath h file) out (extraArgs s format)) (execShell h)
        = Inl m \<and> m \<noteq> [] \<longrightarrow>
      trace (exportFile h s file format out w) =
        trace w @ WriteFile (tempFilePath h file) True # snd (resolvePandoc h (pandocPath s)) @
          [Exec (command h exe (tempFilePath h file) out (extraArgs s format)) (execShell h)
             (Some (env h)),
           ConsoleError m, Notice (failedPrefix @ errorText m @ failedSuffix)] \<and>
      errorText m =
        (case classify m of
           ToolNotFound \<Rightarrow> toolNotFoundText
         | EngineMissing \<Rightarrow> engineTextPrefix @ m @ engineTextSuffix
         | OtherFailure \<Rightarrow> m) \<and>
      classify m =
        (if includesStr m ''command not found'' \<or> includesStr m ''not recognized'' \<or>
            includesStr m notFoundMarker
         then ToolNotFound
         else if includesStr m ''pdflatex not found'' \<or> includesStr m ''xelatex'' \<or>
                 includesStr m ''wkhtmltopdf'' \<or> includesStr m ''weasyprint''
         then EngineMissing
         else OtherFailure))"
proof (intro conjI impI)
  let ?tmp = "tempFilePath h file"
  let ?cmd = "command h exe ?tmp out (extraArgs s format)"
  {
    assume "exec h ?cmd (execShell h) = Inr (stdout, stderr) \<and> unlink_error h ?tmp = None"
    then have x: "exec h ?cmd (execShell h) = Inr (stdout, stderr)"
      and u: "unlink_error h ?tmp = None"
      by simp_all
    from assms x u show "trace (exportFile h s file format out w) =
        trace w @ WriteFile ?tmp True # snd (resolvePandoc h (pandocPath s)) @
          Exec ?cmd (execShell h) (Some (env h)) #
          (if stderr \<noteq> [] then [ConsoleWarning stderr] else []) @
          [Unlink ?tmp True, Notice (succeededPrefix @ path_basename h out)]"
      by (rule exportFile_resolved(1))
  }
  {
    assume a: "exec h ?cmd (execShell h) = Inl m \<and> m \<noteq> []"
    then have x: "exec h ?cmd (execShell h) = Inl m"
      by simp
    from assms x show "trace (exportFile h s file format out w) =
        trace w @ WriteFile ?tmp True # snd (resolvePandoc h (pandocPath s)) @
          [Exec ?cmd (execShell h) (Some (env h)),
           ConsoleError m, Notice (failedPrefix @ errorText m @ failedSuffix)]"
      by (rule exportFile_rejected(1))
    from a show "errorText m =
        (case classify m of
           ToolNotFound \<Rightarrow> toolNotFoundText
         | EngineMissing \<Rightarrow> engineTextPrefix @ m @ engineTextSuffix
         | OtherFailure \<Rightarrow> m)"
      by (simp add: errorText_cases)
    show "classify m =
        (if includesStr m ''command not found'' \<or> includesStr m ''not recognized'' \<or>
            includesStr m notFoundMarker
         then ToolNotFound
         else if includesStr m ''pdflatex not found'' \<or> includesStr m ''xelatex'' \<or>
                 includesStr m ''wkhtmltopdf'' \<or> includesStr m ''weasyprint''
         then EngineMissing
         else OtherFailure)"
      by (simp only: classify_def)
  }
qed

theorem exportFile_outcome_witness:
  "trace (exportFile warningHost DEFAULT_SETTINGS noteFile ''pdf'' ''/vault/note.pdf'' emptyWorld) =
     [WriteFile ''/tmp/note-temp.md'' True,
      Access ''/usr/local/sbin/pandoc'' False, Access ''/usr/bin/pandoc'' True,
      Exec (command warningHost ''/usr/bin/pandoc'' ''/tmp/note-temp.md'' ''/vault/note.pdf'' [])
        (Some ''/bin/bash'') (Some (env warningHost)),
      ConsoleWarning ''[WARNING] Missing character'',
      Unlink ''/tmp/note-temp.md'' True,
      Notice (succeededPrefix @ ''note.pdf'')] \<and>
   trace (exportFile engineHost DEFAULT_SETTINGS noteFile ''pdf'' ''/vault/note.pdf'' emptyWorld) =
     [WriteFile ''/tmp/note-temp.md'' True,
      Access ''/usr/local/sbin/pandoc'' False, Access ''/usr/bin/pandoc'' True,
      Exec (command engineHost ''/usr/bin/pandoc'' ''/tmp/note-temp.md'' ''/vault/note.pdf'' [])
        (Some ''/bin/bash'') (Some (env engineHost)),
      ConsoleError
        ''xelatex not found. Please select a different --pdf-engine or install xelatex'',
      Notice (failedPrefix @ engineTextPrefix @
        ''xelatex not found. Please select a different --pdf-engine or install xelatex'' @
        engineTextSuffix @ failedSuffix)] \<and>
   classify ''xelatex not found. Please select a different --pdf-engine or install xelatex''
     = EngineMissing"
proof -
  let ?m = "''xelatex not found. Please select a different --pdf-engine or install xelatex''"
  have args: "extraArgs DEFAULT_SETTINGS ''pdf'' = []"
    by (simp add: extraArgs_def DEFAULT_SETTINGS_def)
  have sh: "execShell warningHost = Some ''/bin/bash''" "execShell engineHost = Some ''/bin/bash''"
    by (simp_all add: execShell_def warningHost_def engineHost_def linuxHost_def)
  have r1: "fst (resolvePandoc warningHost (pandocPath DEFAULT_SETTINGS)) = Inr ''/usr/bin/pandoc''"
    by (simp add: default_path linux_resolve)
  have r2: "fst (resolvePandoc engineHost (pandocPath DEFAULT_SETTINGS)) = Inr ''/usr/bin/pandoc''"
    by (simp add: default_path linux_resolve)
  have x1: "exec warningHost
        (command warningHost ''/usr/bin/pandoc'' (tempFilePath warningHost noteFile)
           ''/vault/note.pdf'' (extraArgs DEFAULT_SETTINGS ''pdf'')) (execShell warningHost)
        = Inr ([], ''[WARNING] Missing character'') \<and>
      unlink_error warningHost (tempFilePath warningHost noteFile) = None"
    by (simp add: warningHost_def linuxHost_def)
  have x2: "exec engineHost
        (command engineHost ''/usr/bin/pandoc'' (tempFilePath engineHost noteFile)
           ''/vault/note.pdf'' (extraArgs DEFAULT_SETTINGS ''pdf'')) (execShell engineHost)
        = Inl ?m \<and> ?m \<noteq> []"
    by (simp add: engineHost_def)
  have bn: "path_basename warningHost ''/vault/note.pdf'' = ''note.pdf''"
    by (simp add: warningHost_def linuxHost_def)
  have c: "classify ?m = EngineMissing"
    by (simp add: classify_def notFoundMarker_def)
  from exportFile_outcome [OF note_read(2) note_write(2) r1,
      of "''/vault/note.pdf''" "''pdf''" "[]" "''[WARNING] Missing character''" emptyWorld] x1
  have "trace (exportFile warningHost DEFAULT_SETTINGS noteFile ''pdf'' ''/vault/note.pdf'' emptyWorld) =
        trace emptyWorld @ WriteFile (tempFilePath warningHost noteFile) True #
          snd (resolvePandoc warningHost (pandocPath DEFAULT_SETTINGS)) @
          Exec (command warningHost ''/usr/bin/pandoc'' (tempFilePath warningHost noteFile)
                  ''/vault/note.pdf'' (extraArgs DEFAULT_SETTINGS ''pdf'')) (execShell warningHost)
            (Some (env warningHost)) #
          (if ''[WARNING] Missing character'' \<noteq> [] then [ConsoleWarning ''[WARNING] Missing character'']
           else []) @
          [Unlink (tempFilePath warningHost noteFile) True,
           Notice (succeededPrefix @ path_basename warningHost ''/vault/note.pdf'')]"
    by blast
  then have 1: "trace (exportFile warningHost DEFAULT_SETTINGS noteFile ''pdf'' ''/vault/note.pdf'' emptyWorld) =
     [WriteFile ''/tmp/note-temp.md'' True,
      Access ''/usr/local/sbin/pandoc'' False, Access ''/usr/bin/pandoc'' True,
      Exec (command warningHost ''/usr/bin/pandoc'' ''/tmp/note-temp.md'' ''/vault/note.pdf'' [])
        (Some ''/bin/bash'') (Some (env warningHost)),
      ConsoleWarning ''[WARNING] Missing character'',
      Unlink ''/tmp/note-temp.md'' True,
      Notice (succeededPrefix @ ''note.pdf'')]"
    by (simp add: note_temp args default_path linux_resolve sh bn emptyWorld_def)
  from exportFile_outcome [OF note_read(3) note_write(3) r2,
      of "''/vault/note.pdf''" "''pdf''" _ _ emptyWorld ?m] x2
  have "trace (exportFile engineHost DEFAULT_SETTINGS noteFile ''pdf'' ''/vault/note.pdf'' emptyWorld) =
        trace emptyWorld @ WriteFile (tempFilePath engineHost noteFile) True #
          snd (resolvePandoc engineHost (pandocPath DEFAULT_SETTINGS)) @
          [Exec (command engineHost ''/usr/bin/pandoc'' (tempFilePath engineHost noteFile)
                  ''/vault/note.pdf'' (extraArgs DEFAULT_SETTINGS ''pdf'')) (execShell engineHost)
             (Some (env engineHost)),
           ConsoleError ?m, Notice (failedPrefix @ errorText ?m @ failedSuffix)] \<and>
        errorText ?m =
          (case classify ?m of
             ToolNotFound \<Rightarrow> toolNotFoundText
           | EngineMissing \<Rightarrow> engineTextPrefix @ ?m @ engineTextSuffix
           | OtherFailure \<Rightarrow> ?m)"
    by blast
  then have 2: "trace (exportFile engineHost DEFAULT_SETTINGS noteFile ''pdf'' ''/vault/note.pdf'' emptyWorld) =
     [WriteFile ''/tmp/note-temp.md'' True,
      Access ''/usr/local/sbin/pandoc'' False, Access ''/usr/bin/pandoc'' True,
      Exec (command engineHost ''/usr/bin/pandoc'' ''/tmp/note-temp.md'' ''/vault/note.pdf'' [])
        (Some ''/bin/bash'') (Some (env engineHost)),
      ConsoleError ?m,
      Notice (failedPrefix @ engineTextPrefix @ ?m @ engineTextSuffix @ failedSuffix)]"
    by (simp add: note_temp args default_path linux_resolve sh c emptyWorld_def)
  from 1 2 c show ?thesis by blast
qed

theorem pdflatex_message_counterexample:
  "trace (exportFile pdflatexHost DEFAULT_SETTINGS noteFile ''pdf'' ''/vault/note.pdf'' emptyWorld) =
     [WriteFile ''/tmp/note-temp.md'' True,
      Access ''/usr/local/sbin/pandoc'' False, Access ''/usr/bin/pandoc'' True,
      Exec (command pdflatexHost ''/usr/bin/pandoc'' ''/tmp/note-temp.md'' ''/vault/note.pdf'' [])
        (Some ''/bin/bash'') (Some (env pdflatexHost)),
      ConsoleError
        ''pandoc: pdflatex: createProcess: does not exist (No such file or directory)'',
      Notice (failedPrefix @
        ''pandoc: pdflatex: createProcess: does not exist (No such file or directory)'' @
        failedSuffix)] \<and>
   classify ''pandoc: pdflatex: createProcess: does not exist (No such file or directory)''
     = OtherFailure \<and>
   claimedClassify ''pandoc: pdflatex: createProcess: does not exist (No such file or directory)''
     = EngineMissing"
proof -
  let ?m = "''pandoc: pdflatex: createProcess: does not exist (No such file or directory)''"
  have args: "extraArgs DEFAULT_SETTINGS ''pdf'' = []"
    by (simp add: extraArgs_def DEFAULT_SETTINGS_def)
  have sh: "execShell pdflatexHost = Some ''/bin/bash''"
    by (simp add: execShell_def pdflatexHost_def linuxHost_def)
  have r: "fst (resolvePandoc pdflatexHost (pandocPath DEFAULT_SETTINGS)) = Inr ''/usr/bin/pandoc''"
    by (simp add: default_path linux_resolve)
  have x: "exec pdflatexHost
        (command pdflatexHost ''/usr/bin/pandoc'' (tempFilePath pdflatexHost noteFile)
           ''/vault/note.pdf'' (extraArgs DEFAULT_SETTINGS ''pdf'')) (execShell pdflatexHost)
        = Inl ?m"
    by (simp add: pdflatexHost_def)
  have c: "classify ?m = OtherFailure"
    by (simp add: classify_def notFoundMarker_def)
  have t: "errorText ?m = ?m"
    by (simp add: errorText_def c)
  have cc: "claimedClassify ?m = EngineMissing"
    by (simp add: claimedClassify_def)
  from exportFile_rejected(1) [OF note_read(4) note_write(4) r x, of emptyWorld]
  have "trace (exportFile pdflatexHost DEFAULT_SETTINGS noteFile ''pdf'' ''/vault/note.pdf'' emptyWorld) =
     [WriteFile ''/tmp/note-temp.md'' True,
      Access ''/usr/local/sbin/pandoc'' False, Access ''/usr/bin/pandoc'' True,
      Exec (command pdflatexHost ''/usr/bin/pandoc'' ''/tmp/note-temp.md'' ''/vault/note.pdf'' [])
        (Some ''/bin/bash'') (Some (env pdflatexHost)),
      ConsoleError ?m, Notice (failedPrefix @ ?m @ failedSuffix)]"
    by (simp add: note_temp args default_path linux_resolve sh t emptyWorld_def)
  with c cc show ?thesis by blast
qed

section \<open>The message when pandoc is not found\<close>

text \<open>
  C7, as amended. When the configured path is not accepted and the search finds
  nothing, the result is the error with the text of lines 344 to 349. The text is a
  constant: it is the same for every hint and on every platform, and it suggests both
  \<^verbatim>\<open>which pandoc\<close> and \<^verbatim>\<open>where pandoc\<close>. The \<^verbatim>\<open>catch\<close> block classifies it as tool not
  found and shows the text of lines 404 to 409, a constant with the same two commands.
  The specification says that the message names the hint; the counterexample is the
  hint \<^verbatim>\<open>/opt/tool/conv\<close> on a Mac, which neither text contains.
\<close>

theorem not_found_message_fixed:
  assumes "\<not> snd (fst (userPath h hint))" and "fst (searchPandoc h) = None"
  shows "fst (resolvePandoc h hint) = Inl notFoundMessage \<and>
         includesStr notFoundMessage ''which pandoc'' \<and>
         includesStr notFoundMessage ''where pandoc'' \<and>
         classify notFoundMessage = ToolNotFound \<and>
         errorText notFoundMessage = toolNotFoundText \<and>
         includesStr toolNotFoundText ''which pandoc'' \<and>
         includesStr toolNotFoundText ''where pandoc''"
proof (intro conjI)
  from assms show "fst (resolvePandoc h hint) = Inl notFoundMessage"
    by (simp add: resolvePandoc_search)
  show "includesStr notFoundMessage ''which pandoc''"
    by (simp add: notFoundMessage_def)
  show "includesStr notFoundMessage ''where pandoc''"
    by (simp add: notFoundMessage_def)
  have "startsWith notFoundMessage notFoundMarker"
    by (simp add: notFoundMessage_def notFoundMarker_def)
  then have "includesStr notFoundMessage notFoundMarker"
    by (rule startsWith_includesStr)
  then show c: "classify notFoundMessage = ToolNotFound"
    by (simp add: classify_def)
  have "notFoundMessage \<noteq> []"
    by (simp add: notFoundMessage_def)
  with c show "errorText notFoundMessage = toolNotFoundText"
    by (simp add: errorText_def)
  show "includesStr toolNotFoundText ''which pandoc''"
    by (simp add: toolNotFoundText_def)
  show "includesStr toolNotFoundText ''where pandoc''"
    by (simp add: toolNotFoundText_def)
qed

theorem not_found_message_fixed_witness:
  "fst (resolvePandoc macHost ''/opt/tool/conv'') = Inl notFoundMessage \<and>
   fst (resolvePandoc macHost ''pandoc'') = Inl notFoundMessage \<and>
   includesStr notFoundMessage ''where pandoc''"
  using not_found_message_fixed [OF mac_resolve(1) mac_resolve(3)]
    not_found_message_fixed [OF mac_resolve(2) mac_resolve(3)]
  by blast

theorem message_omits_hint_counterexample:
  "fst (resolvePandoc macHost ''/opt/tool/conv'') = Inl notFoundMessage \<and>
   \<not> includesStr notFoundMessage ''/opt/tool/conv'' \<and>
   \<not> includesStr (failedPrefix @ errorText notFoundMessage @ failedSuffix) ''/opt/tool/conv''"
proof -
  have 1: "fst (resolvePandoc macHost ''/opt/tool/conv'') = Inl notFoundMessage"
    by (simp add: resolvePandoc_search mac_resolve)
  have 2: "\<not> includesStr notFoundMessage ''/opt/tool/conv''"
    by (simp add: notFoundMessage_def)
  have "startsWith notFoundMessage notFoundMarker"
    by (simp add: notFoundMessage_def notFoundMarker_def)
  then have "includesStr notFoundMessage notFoundMarker"
    by (rule startsWith_includesStr)
  moreover have "notFoundMessage \<noteq> []"
    by (simp add: notFoundMessage_def)
  ultimately have "errorText notFoundMessage = toolNotFoundText"
    by (simp add: errorText_def classify_def)
  moreover have "\<not> includesStr (failedPrefix @ toolNotFoundText @ failedSuffix) ''/opt/tool/conv''"
    by (simp add: failedPrefix_def toolNotFoundText_def failedSuffix_def)
  ultimately show ?thesis using 1 2 by simp
qed

section \<open>Quoting in the command line\<close>

text \<open>
  C8. The specification wants the paths of the command line quoted: with double quotes
  on Windows, with single quotes inside the \<^verbatim>\<open>/bin/bash -c\<close> wrapper elsewhere. Line 365
  quotes the executable, the input and the output. Line 368 quotes the input and the
  output and puts the executable in as it is. Evaluated for pandoc installed under
  \<^verbatim>\<open>/opt/my tools\<close>: the command that is run, in which the executable is not inside single
  quotes, and what the Windows branch builds from the same paths.
\<close>

theorem posix_command_executable_unquoted:
  "Exec (''/bin/bash -c '' @ [CHR 0x22] @ ''/opt/my tools/pandoc '' @
         [CHR 0x27] @ ''/tmp/note-temp.md'' @ [CHR 0x27] @ '' -o '' @
         [CHR 0x27] @ ''/vault/note.html'' @ [CHR 0x27] @ '' '' @ [CHR 0x22])
      (Some ''/bin/bash'') (Some (env twoPandocs))
     \<in> set (trace (exportFile twoPandocs (DEFAULT_SETTINGS\<lparr>pandocPath := ''/opt/my tools/pandoc''\<rparr>)
                     noteFile ''html'' ''/vault/note.html'' emptyWorld)) \<and>
   \<not> includesStr
       (command twoPandocs ''/opt/my tools/pandoc'' ''/tmp/note-temp.md'' ''/vault/note.html'' [])
       ([CHR 0x27] @ ''/opt/my tools/pandoc'' @ [CHR 0x27]) \<and>
   command windowsHost ''/opt/my tools/pandoc'' ''/tmp/note-temp.md'' ''/vault/note.html'' [] =
     [CHR 0x22] @ ''/opt/my tools/pandoc'' @ [CHR 0x22] @ '' '' @
     [CHR 0x22] @ ''/tmp/note-temp.md'' @ [CHR 0x22] @ '' -o '' @
     [CHR 0x22] @ ''/vault/note.html'' @ [CHR 0x22] @ '' ''"
proof (intro conjI)
  let ?s = "DEFAULT_SETTINGS\<lparr>pandocPath := ''/opt/my tools/pandoc''\<rparr>"
  have r: "fst (resolvePandoc twoPandocs (pandocPath ?s)) = Inr ''/opt/my tools/pandoc''"
    by (simp add: two_resolve)
  have args: "extraArgs ?s ''html'' = []"
    by (simp add: extraArgs_def DEFAULT_SETTINGS_def)
  have sh: "execShell twoPandocs = Some ''/bin/bash''"
    by (simp add: execShell_def twoPandocs_def linuxHost_def)
  have c: "command twoPandocs ''/opt/my tools/pandoc'' ''/tmp/note-temp.md'' ''/vault/note.html'' [] =
      ''/bin/bash -c '' @ [CHR 0x22] @ ''/opt/my tools/pandoc '' @
         [CHR 0x27] @ ''/tmp/note-temp.md'' @ [CHR 0x27] @ '' -o '' @
         [CHR 0x27] @ ''/vault/note.html'' @ [CHR 0x27] @ '' '' @ [CHR 0x22]"
    by (simp add: command_def twoPandocs_def linuxHost_def)
  have "exportFile twoPandocs ?s noteFile ''html'' ''/vault/note.html'' emptyWorld =
      runPandoc twoPandocs
        (command twoPandocs ''/opt/my tools/pandoc'' (tempFilePath twoPandocs noteFile)
           ''/vault/note.html'' (extraArgs ?s ''html''))
        (tempFilePath twoPandocs noteFile) ''/vault/note.html''
        (started twoPandocs ?s noteFile ''# Title'' emptyWorld)"
    using note_read(6) note_write(6) r by (rule exportFile_found)
  then have "Exec (command twoPandocs ''/opt/my tools/pandoc'' ''/tmp/note-temp.md''
                     ''/vault/note.html'' [])
               (Some ''/bin/bash'') (Some (env twoPandocs))
      \<in> set (trace (exportFile twoPandocs ?s noteFile ''html'' ''/vault/note.html'' emptyWorld))"
    using runPandoc_exec_event [of "command twoPandocs ''/opt/my tools/pandoc''
        ''/tmp/note-temp.md'' ''/vault/note.html'' []" twoPandocs "''/tmp/note-temp.md''"
        "''/vault/note.html''" "started twoPandocs ?s noteFile ''# Title'' emptyWorld"]
    by (simp add: note_temp args sh)
  then show "Exec (''/bin/bash -c '' @ [CHR 0x22] @ ''/opt/my tools/pandoc '' @
         [CHR 0x27] @ ''/tmp/note-temp.md'' @ [CHR 0x27] @ '' -o '' @
         [CHR 0x27] @ ''/vault/note.html'' @ [CHR 0x27] @ '' '' @ [CHR 0x22])
      (Some ''/bin/bash'') (Some (env twoPandocs))
     \<in> set (trace (exportFile twoPandocs ?s noteFile ''html'' ''/vault/note.html'' emptyWorld))"
    unfolding c .
  show "\<not> includesStr
       (command twoPandocs ''/opt/my tools/pandoc'' ''/tmp/note-temp.md'' ''/vault/note.html'' [])
       ([CHR 0x27] @ ''/opt/my tools/pandoc'' @ [CHR 0x27])"
    unfolding c by simp
  show "command windowsHost ''/opt/my tools/pandoc'' ''/tmp/note-temp.md'' ''/vault/note.html'' [] =
     [CHR 0x22] @ ''/opt/my tools/pandoc'' @ [CHR 0x22] @ '' '' @
     [CHR 0x22] @ ''/tmp/note-temp.md'' @ [CHR 0x22] @ '' -o '' @
     [CHR 0x22] @ ''/vault/note.html'' @ [CHR 0x22] @ '' ''"
    by (simp add: command_def windowsHost_def linuxHost_def)
qed

section \<open>The export directory is created or replaced\<close>

text \<open>
  C9. With an empty export directory in the settings the call returns the vault root
  and does nothing (the world, and so the trace, is unchanged). Otherwise the directory,
  taken from the vault root when it is relative, is created: when that works the
  directory is returned and exists afterwards, and when it fails the vault root is
  returned, after an error on the console and a notice.
\<close>

theorem getExportDirectory_result:
  "(defaultExportDirectory s = [] \<longrightarrow> getExportDirectory h s w = (getVaultPath h, w)) \<and>
   (path_isAbsolute h (defaultExportDirectory s) \<longrightarrow>
      resolvedExportPath h s = defaultExportDirectory s) \<and>
   (\<not> path_isAbsolute h (defaultExportDirectory s) \<longrightarrow>
      resolvedExportPath h s = path_join h (getVaultPath h) (defaultExportDirectory s)) \<and>
   (defaultExportDirectory s \<noteq> [] \<and> mkdir_error h (resolvedExportPath h s) = None \<longrightarrow>
      fst (getExportDirectory h s w) = resolvedExportPath h s \<and>
      resolvedExportPath h s \<in> fs_dirs (snd (getExportDirectory h s w)) \<and>
      trace (snd (getExportDirectory h s w)) = trace w @ [Mkdir (resolvedExportPath h s) True]) \<and>
   (defaultExportDirectory s \<noteq> [] \<and> mkdir_error h (resolvedExportPath h s) \<noteq> None \<longrightarrow>
      fst (getExportDirectory h s w) = getVaultPath h \<and>
      fs_dirs (snd (getExportDirectory h s w)) = fs_dirs w \<and>
      trace (snd (getExportDirectory h s w)) =
        trace w @ [Mkdir (resolvedExportPath h s) False,
                   ConsoleError (the (mkdir_error h (resolvedExportPath h s))),
                   Notice mkdirFailedNotice])"
proof (intro conjI impI)
  assume "defaultExportDirectory s = []"
  then show "getExportDirectory h s w = (getVaultPath h, w)"
    by (simp add: getExportDirectory_def)
next
  assume "path_isAbsolute h (defaultExportDirectory s)"
  then show "resolvedExportPath h s = defaultExportDirectory s"
    by (simp add: resolvedExportPath_def)
next
  assume "\<not> path_isAbsolute h (defaultExportDirectory s)"
  then show "resolvedExportPath h s = path_join h (getVaultPath h) (defaultExportDirectory s)"
    by (simp add: resolvedExportPath_def)
next
  assume a: "defaultExportDirectory s \<noteq> [] \<and> mkdir_error h (resolvedExportPath h s) = None"
  then have m: "mkdir h (resolvedExportPath h s) w =
      Inr (emit [Mkdir (resolvedExportPath h s) True]
             (w\<lparr>fs_dirs := insert (resolvedExportPath h s) (fs_dirs w)\<rparr>))"
    by (simp add: mkdir_def)
  with a show "fst (getExportDirectory h s w) = resolvedExportPath h s"
    and "resolvedExportPath h s \<in> fs_dirs (snd (getExportDirectory h s w))"
    and "trace (snd (getExportDirectory h s w)) = trace w @ [Mkdir (resolvedExportPath h s) True]"
    by (simp_all add: getExportDirectory_def emit_def)
next
  assume a: "defaultExportDirectory s \<noteq> [] \<and> mkdir_error h (resolvedExportPath h s) \<noteq> None"
  then obtain e where e: "mkdir_error h (resolvedExportPath h s) = Some e"
    by auto
  then have m: "mkdir h (resolvedExportPath h s) w = Inl e"
    by (simp add: mkdir_def)
  with a e show "fst (getExportDirectory h s w) = getVaultPath h"
    and "fs_dirs (snd (getExportDirectory h s w)) = fs_dirs w"
    and "trace (snd (getExportDirectory h s w)) =
        trace w @ [Mkdir (resolvedExportPath h s) False,
                   ConsoleError (the (mkdir_error h (resolvedExportPath h s))),
                   Notice mkdirFailedNotice]"
    by (simp_all add: getExportDirectory_def emit_def)
qed

theorem getExportDirectory_result_witness:
  "getExportDirectory linuxHost DEFAULT_SETTINGS emptyWorld = (''/vault'', emptyWorld) \<and>
   fst (getExportDirectory linuxHost (DEFAULT_SETTINGS\<lparr>defaultExportDirectory := ''exports''\<rparr>)
          emptyWorld) = ''/vault/exports'' \<and>
   ''/vault/exports'' \<in>
     fs_dirs (snd (getExportDirectory linuxHost
                     (DEFAULT_SETTINGS\<lparr>defaultExportDirectory := ''exports''\<rparr>) emptyWorld)) \<and>
   fst (getExportDirectory readOnlyHost (DEFAULT_SETTINGS\<lparr>defaultExportDirectory := ''exports''\<rparr>)
          emptyWorld) = ''/vault''"
proof -
  let ?s = "DEFAULT_SETTINGS\<lparr>defaultExportDirectory := ''exports''\<rparr>"
  have a: "defaultExportDirectory DEFAULT_SETTINGS = []"
    by (simp add: DEFAULT_SETTINGS_def)
  have v: "getVaultPath linuxHost = ''/vault''" "getVaultPath readOnlyHost = ''/vault''"
    by (simp_all add: getVaultPath_def linuxHost_def readOnlyHost_def)
  have r: "resolvedExportPath linuxHost ?s = ''/vault/exports''"
    by (simp add: resolvedExportPath_def getVaultPath_def linuxHost_def)
  have b: "defaultExportDirectory ?s \<noteq> [] \<and>
           mkdir_error linuxHost (resolvedExportPath linuxHost ?s) = None"
    by (simp add: linuxHost_def)
  have c: "defaultExportDirectory ?s \<noteq> [] \<and>
           mkdir_error readOnlyHost (resolvedExportPath readOnlyHost ?s) \<noteq> None"
    by (simp add: readOnlyHost_def)
  have "getExportDirectory linuxHost DEFAULT_SETTINGS emptyWorld = (getVaultPath linuxHost, emptyWorld)"
    using getExportDirectory_result [of DEFAULT_SETTINGS linuxHost emptyWorld] a by blast
  then have 1: "getExportDirectory linuxHost DEFAULT_SETTINGS emptyWorld = (''/vault'', emptyWorld)"
    unfolding v .
  have "fst (getExportDirectory linuxHost ?s emptyWorld) = resolvedExportPath linuxHost ?s \<and>
        resolvedExportPath linuxHost ?s \<in> fs_dirs (snd (getExportDirectory linuxHost ?s emptyWorld))"
    using getExportDirectory_result [of ?s linuxHost emptyWorld] b by blast
  then have 2: "fst (getExportDirectory linuxHost ?s emptyWorld) = ''/vault/exports'' \<and>
        ''/vault/exports'' \<in> fs_dirs (snd (getExportDirectory linuxHost ?s emptyWorld))"
    unfolding r .
  have "fst (getExportDirectory readOnlyHost ?s emptyWorld) = getVaultPath readOnlyHost"
    using getExportDirectory_result [of ?s readOnlyHost emptyWorld] c by blast
  then have 3: "fst (getExportDirectory readOnlyHost ?s emptyWorld) = ''/vault''"
    unfolding v .
  from 1 2 3 show ?thesis by blast
qed

section \<open>The suffix on Windows\<close>

text \<open>
  C10. On Windows, for an absolute configured path that does not end in \<^verbatim>\<open>.exe\<close>, that
  fails the executability check and whose variant with \<^verbatim>\<open>.exe\<close> appended passes it:
  the search returns the configured path as it is, after exactly these two checks, and
  the command line that \<^verbatim>\<open>exportFile\<close> runs starts with the configured path in double
  quotes, without the suffix. The test of line 152 is among the hypotheses, because
  \<^verbatim>\<open>path.isAbsolute\<close> is a function of the host here: the path is not empty and is not
  the bare name \<^verbatim>\<open>pandoc\<close>.
\<close>

theorem windows_exe_retry_keeps_hint:
  assumes "platform h = Win32" and "path_isAbsolute h hint"
    and "hint \<noteq> []" and "hint \<noteq> ''pandoc''" and "\<not> endsWith hint ''.exe''"
    and "\<not> access_X_OK h hint" and "access_X_OK h (hint @ ''.exe'')"
    and "pandocPath s = hint"
    and "vault_read h (file_path file) = Inr content"
    and "writeFile_error h (tempFilePath h file) = None"
  shows "resolvePandoc h hint = (Inr hint, [Access hint False, Access (hint @ ''.exe'') True]) \<and>
         Exec ([CHR 0x22] @ hint @ [CHR 0x22] @ '' '' @ [CHR 0x22] @ tempFilePath h file @
               [CHR 0x22] @ '' -o '' @ [CHR 0x22] @ out @ [CHR 0x22] @ '' '' @ extraArgs s format)
           None (Some (env h))
           \<in> set (trace (exportFile h s file format out w))"
proof
  from assms(1-7) show r: "resolvePandoc h hint =
      (Inr hint, [Access hint False, Access (hint @ ''.exe'') True])"
    by (simp add: resolvePandoc_def userPath_def accessOrExe_def)
  with assms(8) have "fst (resolvePandoc h (pandocPath s)) = Inr hint" by simp
  with assms(9,10) have "exportFile h s file format out w =
      runPandoc h (command h hint (tempFilePath h file) out (extraArgs s format))
        (tempFilePath h file) out (started h s file content w)"
    by (rule exportFile_found)
  moreover have "command h hint (tempFilePath h file) out (extraArgs s format) =
      [CHR 0x22] @ hint @ [CHR 0x22] @ '' '' @ [CHR 0x22] @ tempFilePath h file @
      [CHR 0x22] @ '' -o '' @ [CHR 0x22] @ out @ [CHR 0x22] @ '' '' @ extraArgs s format"
    using assms(1) by (simp add: command_def)
  moreover have "execShell h = None"
    using assms(1) by (simp add: execShell_def)
  ultimately show "Exec ([CHR 0x22] @ hint @ [CHR 0x22] @ '' '' @ [CHR 0x22] @ tempFilePath h file @
               [CHR 0x22] @ '' -o '' @ [CHR 0x22] @ out @ [CHR 0x22] @ '' '' @ extraArgs s format)
           None (Some (env h))
           \<in> set (trace (exportFile h s file format out w))"
    using runPandoc_exec_event [of "command h hint (tempFilePath h file) out (extraArgs s format)"
        h "tempFilePath h file" out "started h s file content w"]
    by simp
qed

theorem windows_exe_retry_keeps_hint_witness:
  "\<not> access_X_OK windowsHost (''C:'' @ [CHR 0x5C] @ ''tools'' @ [CHR 0x5C] @ ''pandoc'') \<and>
   access_X_OK windowsHost (''C:'' @ [CHR 0x5C] @ ''tools'' @ [CHR 0x5C] @ ''pandoc'' @ ''.exe'') \<and>
   fst (resolvePandoc windowsHost (''C:'' @ [CHR 0x5C] @ ''tools'' @ [CHR 0x5C] @ ''pandoc'')) =
     Inr (''C:'' @ [CHR 0x5C] @ ''tools'' @ [CHR 0x5C] @ ''pandoc'') \<and>
   Exec ([CHR 0x22] @ (''C:'' @ [CHR 0x5C] @ ''tools'' @ [CHR 0x5C] @ ''pandoc'') @ [CHR 0x22] @
         '' '' @ [CHR 0x22] @ (''C:'' @ [CHR 0x5C] @ ''Temp'' @ [CHR 0x5C] @ ''note-temp.md'') @
         [CHR 0x22] @ '' -o '' @ [CHR 0x22] @ (''C:'' @ [CHR 0x5C] @ ''out'' @ [CHR 0x5C] @ ''note.docx'') @
         [CHR 0x22] @ '' '')
     None (Some (env windowsHost))
     \<in> set (trace (exportFile windowsHost
                     (DEFAULT_SETTINGS\<lparr>pandocPath := ''C:'' @ [CHR 0x5C] @ ''tools'' @ [CHR 0x5C] @ ''pandoc''\<rparr>)
                     noteFile ''docx'' (''C:'' @ [CHR 0x5C] @ ''out'' @ [CHR 0x5C] @ ''note.docx'')
                     emptyWorld))"
proof -
  let ?hint = "''C:'' @ [CHR 0x5C] @ ''tools'' @ [CHR 0x5C] @ ''pandoc''"
  let ?out = "''C:'' @ [CHR 0x5C] @ ''out'' @ [CHR 0x5C] @ ''note.docx''"
  let ?s = "DEFAULT_SETTINGS\<lparr>pandocPath := ?hint\<rparr>"
  have 1: "platform windowsHost = Win32" and 2: "path_isAbsolute windowsHost ?hint"
    and 3: "?hint \<noteq> []" and 4: "?hint \<noteq> ''pandoc''" and 5: "\<not> endsWith ?hint ''.exe''"
    and 6: "\<not> access_X_OK windowsHost ?hint" and 7: "access_X_OK windowsHost (?hint @ ''.exe'')"
    and 8: "pandocPath ?s = ?hint"
    and 9: "vault_read windowsHost (file_path noteFile) = Inr ''# Title''"
    and 10: "writeFile_error windowsHost (tempFilePath windowsHost noteFile) = None"
    by (simp_all add: windowsHost_def linuxHost_def endsWith_def)
  have t: "tempFilePath windowsHost noteFile = ''C:'' @ [CHR 0x5C] @ ''Temp'' @ [CHR 0x5C] @ ''note-temp.md''"
    by (simp add: tempFilePath_def noteFile_def windowsHost_def linuxHost_def)
  have a: "extraArgs ?s ''docx'' = []"
    by (simp add: extraArgs_def DEFAULT_SETTINGS_def)
  from windows_exe_retry_keeps_hint [OF 1 2 3 4 5 6 7 8 9 10, of ?out "''docx''" emptyWorld]
  have "fst (resolvePandoc windowsHost ?hint) = Inr ?hint \<and>
        Exec ([CHR 0x22] @ ?hint @ [CHR 0x22] @ '' '' @ [CHR 0x22] @ tempFilePath windowsHost noteFile @
               [CHR 0x22] @ '' -o '' @ [CHR 0x22] @ ?out @ [CHR 0x22] @ '' '' @ extraArgs ?s ''docx'')
           None (Some (env windowsHost))
           \<in> set (trace (exportFile windowsHost ?s noteFile ''docx'' ?out emptyWorld))"
    by simp
  then have "fst (resolvePandoc windowsHost ?hint) = Inr ?hint \<and>
        Exec ([CHR 0x22] @ ?hint @ [CHR 0x22] @ '' '' @ [CHR 0x22] @
               (''C:'' @ [CHR 0x5C] @ ''Temp'' @ [CHR 0x5C] @ ''note-temp.md'') @
               [CHR 0x22] @ '' -o '' @ [CHR 0x22] @ ?out @ [CHR 0x22] @ '' '')
           None (Some (env windowsHost))
           \<in> set (trace (exportFile windowsHost ?s noteFile ''docx'' ?out emptyWorld))"
    unfolding t a by simp
  with 6 7 show ?thesis by simp
qed

end
